theory Spec2Isabelle
  imports
    Complex_Main
    "HOL-Library.Product_Lexorder"
    "HOL-Library.List_Lexorder"
    "HOL-Library.Char_ord"
begin

section \<open>Conventions of the embedding\<close>

text \<open>
  The development embeds the parts of \<^verbatim>\<open>kvk_url_finder/kvk_engine.py\<close> that decide the
  properties below. Python exceptions are values of \<open>py_error\<close>; a function that may raise
  returns \<open>py_error + 'a\<close>. Python floats are idealised as reals, Python integers are
  \<open>int\<close>, strings are lists of 8-bit characters, read as the code points 0 to 255.
  Functions of external libraries (\<^verbatim>\<open>tldextract\<close>, \<^verbatim>\<open>Levenshtein\<close>, \<^verbatim>\<open>difflib\<close>,
  \<^verbatim>\<open>cbs_utils\<close>, \<^verbatim>\<open>peewee\<close>) are parameters of the functions that call them.
\<close>

datatype py_error =
    TypeError
  | ValueError
  | ZeroDivisionError
  | IndexError
  | AttributeError
  | DatabaseError string
  | OtherError string

subsection \<open>Character classes and the builtin \<open>int\<close>\<close>

text \<open>
  A character is a code point below 256. On this range the classes below are those of
  Python 3 for \<^verbatim>\<open>str\<close>: \<^verbatim>\<open>\s\<close> and \<^verbatim>\<open>\w\<close> of a \<^verbatim>\<open>str\<close> pattern follow the Unicode
  database (U+0085 and U+00A0 are white space; the letters, digits and fractions of
  U+00AA to U+00FF are word characters), and \<^verbatim>\<open>str.lower\<close> lowers the capital letters
  U+00C0 to U+00DE as well.
\<close>

definition is_space :: "char \<Rightarrow> bool" where
  \<comment> \<open>\<^verbatim>\<open>\s\<close> of a str pattern: TAB, LF, VT, FF, CR, FS, GS, RS, US, the blank, NEL and the
      no-break space\<close>
  "is_space c = (let n = (of_char c :: nat) in
     (9 \<le> n \<and> n \<le> 13) \<or> (28 \<le> n \<and> n \<le> 32) \<or> n = 133 \<or> n = 160)"

definition is_digit :: "char \<Rightarrow> bool" where
  \<comment> \<open>the decimal digits that \<^verbatim>\<open>int\<close> accepts; below 256 these are \<^verbatim>\<open>0\<close> to \<^verbatim>\<open>9\<close>\<close>
  "is_digit c = (let n = (of_char c :: nat) in 48 \<le> n \<and> n \<le> 57)"

definition is_word :: "char \<Rightarrow> bool" where
  \<comment> \<open>\<^verbatim>\<open>\w\<close> of a str pattern: the alphanumeric characters and the underscore\<close>
  "is_word c = (let n = (of_char c :: nat) in
     (48 \<le> n \<and> n \<le> 57) \<or> (65 \<le> n \<and> n \<le> 90) \<or> n = 95 \<or> (97 \<le> n \<and> n \<le> 122)
     \<or> n = 170 \<or> n = 178 \<or> n = 179 \<or> n = 181 \<or> n = 185 \<or> n = 186
     \<or> (188 \<le> n \<and> n \<le> 190) \<or> (192 \<le> n \<and> n \<le> 214) \<or> (216 \<le> n \<and> n \<le> 246)
     \<or> 248 \<le> n)"

definition is_upper :: "char \<Rightarrow> bool" where
  \<comment> \<open>the characters that \<^verbatim>\<open>str.lower\<close> changes: A to Z, U+00C0 to U+00D6, U+00D8 to U+00DE\<close>
  "is_upper c = (let n = (of_char c :: nat) in
     (65 \<le> n \<and> n \<le> 90) \<or> (192 \<le> n \<and> n \<le> 214) \<or> (216 \<le> n \<and> n \<le> 222))"

definition lower_char :: "char \<Rightarrow> char" where
  "lower_char c = (if is_upper c then char_of ((of_char c :: nat) + 32) else c)"

definition lower :: "string \<Rightarrow> string" where
  \<comment> \<open>\<^verbatim>\<open>s.lower()\<close>\<close>
  "lower s = map lower_char s"

definition is_int_space :: "char \<Rightarrow> bool" where
  \<comment> \<open>the white space that \<^verbatim>\<open>int\<close> strips from a str: that of C (TAB, LF, VT, FF, CR, blank)
      and the Unicode white space from U+007F on (NEL, no-break space); not FS, GS, RS, US\<close>
  "is_int_space c = (let n = (of_char c :: nat) in
     (9 \<le> n \<and> n \<le> 13) \<or> n = 32 \<or> n = 133 \<or> n = 160)"

definition strip_dots :: "string \<Rightarrow> string" where
  \<comment> \<open>\<^verbatim>\<open>re.sub(r"\.", "", s)\<close>\<close>
  "strip_dots s = filter (\<lambda>c. c \<noteq> CHR ''.'') s"

fun parse_digits :: "int \<Rightarrow> bool \<Rightarrow> string \<Rightarrow> int option" where
  "parse_digits acc lastd [] = (if lastd then Some acc else None)"
| "parse_digits acc lastd (c # cs) =
     (if is_digit c then parse_digits (10 * acc + (int (of_char c) - 48)) True cs
      else if c = CHR ''_'' \<and> lastd then parse_digits acc False cs
      else None)"

definition py_int :: "string \<Rightarrow> int option" where
  \<comment> \<open>the builtin \<^verbatim>\<open>int(s)\<close>: white space around, a sign, decimal digits with single
      underscores between them; \<open>None\<close> stands for ValueError\<close>
  "py_int s =
     (let t = rev (dropWhile is_int_space (rev (dropWhile is_int_space s)))
      in case t of
           [] \<Rightarrow> None
         | c # cs \<Rightarrow>
             if c = CHR ''-'' then map_option uminus (parse_digits 0 False cs)
             else if c = CHR ''+'' then parse_digits 0 False cs
             else parse_digits 0 False t)"

section \<open>Scoring engine: \<^verbatim>\<open>UrlCompanyRanking\<close>\<close>

datatype match_key = POSTAL_CODE_KEY | KVK_KEY | BTW_KEY

record TLDExtract =
  subdomain :: string
  domain :: string
  suffix :: string

text \<open>
  The page analysis of \<^verbatim>\<open>cbs_utils.web_scraping.UrlSearchStrings\<close>, as far as the engine
  reads and writes it. The dictionary \<^verbatim>\<open>url_per_match[key]\<close> is an association list in
  insertion order.
\<close>

record UrlSearchStrings =
  exists :: bool
  matches :: "match_key \<Rightarrow> string list"
  url_per_match :: "match_key \<Rightarrow> (string \<times> string) list option"
  external_hrefs :: "string option list"
  req_ssl :: bool
  req_ssl_invalid :: bool

record UrlCompanyRanking =
  company_name :: string
  url :: string
  company_postcodes :: "string set option"
  company_kvk_nummer :: "int option"
  url_analyse :: "UrlSearchStrings option"
  threshold_string_match :: "real option"
  threshold_distance :: "real option"
  max_url_score :: real
  ext :: TLDExtract
  ranking :: real
  distance :: "int option"
  string_match :: "real option"
  url_match :: "real option"
  url_rank :: "real option"
  has_postcode :: bool
  has_kvk_nummer :: bool
  has_btw_nummer :: bool
  btw_nummer :: "string option"
  postcode_set :: "string set"
  kvk_set :: "int set"
  btw_set :: "string set"

definition ranked_matches :: "UrlSearchStrings \<Rightarrow> match_key \<Rightarrow> string list" where
  \<comment> \<open>the sorted copy made by \<^verbatim>\<open>match_df.sort_values(["score"])\<close> is discarded by the source:
      each match list becomes the keys of \<^verbatim>\<open>url_per_match[key]\<close> in insertion order\<close>
  "ranked_matches ua key =
     (case url_per_match ua key of
        Some url_p_m \<Rightarrow> map fst url_p_m
      | None \<Rightarrow> matches ua key)"

definition rank_contact_list :: "UrlCompanyRanking \<Rightarrow> py_error + UrlCompanyRanking" where
  "rank_contact_list self =
     (case url_analyse self of
        None \<Rightarrow> Inl AttributeError
      | Some ua \<Rightarrow> Inr (self\<lparr>url_analyse := Some (ua\<lparr>matches := ranked_matches ua\<rparr>)\<rparr>))"

definition suffix_bonus :: "string \<Rightarrow> real" where
  "suffix_bonus sfx =
     (if sfx \<in> {''com'', ''org'', ''eu''} then 1 else if sfx = ''nl'' then 2 else 0)"

definition subdomain_bonus :: "string \<Rightarrow> real" where
  "subdomain_bonus sub = (if sub = ''www'' then 2 else if sub = [] then 1 else 0)"

definition score_fields ::
  "(string set \<Rightarrow> string) \<Rightarrow> UrlCompanyRanking \<Rightarrow> UrlCompanyRanking" where
  \<comment> \<open>lines 1799-1819 of \<^verbatim>\<open>get_ranking\<close>; \<open>set_first S\<close> is \<^verbatim>\<open>list(S)[0]\<close>\<close>
  "score_fields set_first self =
     (let self1 =
            (if (case company_postcodes self of
                   None \<Rightarrow> False
                 | Some pcs \<Rightarrow> pcs \<noteq> {} \<and> pcs \<inter> postcode_set self \<noteq> {})
             then self\<lparr>has_postcode := True, ranking := ranking self + 3\<rparr>
             else self\<lparr>has_postcode := False\<rparr>);
          self2 =
            (if (case company_kvk_nummer self1 of
                   None \<Rightarrow> False
                 | Some kvk \<Rightarrow> kvk \<in> kvk_set self1)
             then self1\<lparr>has_kvk_nummer := True, ranking := ranking self1 + 3\<rparr>
             else self1)
      in if btw_set self2 \<noteq> {}
         then self2\<lparr>has_btw_nummer := True,
                    btw_nummer := Some (strip_dots (set_first (btw_set self2))),
                    ranking := ranking self2 + 0\<rparr>
         else self2\<lparr>btw_nummer := None\<rparr>)"

definition score_url_shape :: "UrlCompanyRanking \<Rightarrow> py_error + UrlCompanyRanking" where
  \<comment> \<open>lines 1821-1836 of \<^verbatim>\<open>get_ranking\<close>\<close>
  "score_url_shape self =
     (case (distance self, string_match self) of
        (Some d, Some sm) \<Rightarrow>
          (let um = real_of_int d * (1 - sm) in
           case threshold_distance self of
             None \<Rightarrow> Inl TypeError
           | Some thr \<Rightarrow>
               if thr = 0 then Inl ZeroDivisionError
               else
                 (let ur0 = max (max_url_score self * (1 - um / thr)) 0;
                      ur1 = ur0 + suffix_bonus (suffix (ext self));
                      ur2 = ur1 + subdomain_bonus (subdomain (ext self))
                  in Inr (self\<lparr>url_match := Some um, url_rank := Some ur2,
                                 ranking := ranking self + ur2\<rparr>)))
      | _ \<Rightarrow> Inl TypeError)"

definition get_ranking ::
  "(string \<Rightarrow> string) \<Rightarrow> (string set \<Rightarrow> string) \<Rightarrow> UrlCompanyRanking
     \<Rightarrow> py_error + UrlCompanyRanking" where
  "get_ranking standard_postcode set_first self =
     (let postcode_lijst = (case url_analyse self of Some ua \<Rightarrow> matches ua POSTAL_CODE_KEY | None \<Rightarrow> []);
          kvk_lijst = (case url_analyse self of Some ua \<Rightarrow> matches ua KVK_KEY | None \<Rightarrow> []);
          btw_lijst = (case url_analyse self of Some ua \<Rightarrow> matches ua BTW_KEY | None \<Rightarrow> [])
      in case those (map (\<lambda>kvk. py_int (strip_dots kvk)) kvk_lijst) of
           None \<Rightarrow> Inl ValueError
         | Some kvks \<Rightarrow>
             score_url_shape
               (score_fields set_first
                  (self\<lparr>postcode_set := set (map standard_postcode postcode_lijst),
                         kvk_set := set kvks,
                         btw_set := set (map strip_dots btw_lijst)\<rparr>)))"

text \<open>
  The constructor. \<open>levenshtein\<close> is \<^verbatim>\<open>Levenshtein.distance\<close>, \<open>ratio\<close> is
  \<^verbatim>\<open>difflib.SequenceMatcher(None, a, b).ratio()\<close>, \<open>extract\<close> is \<^verbatim>\<open>tldextract.extract\<close>.
\<close>

definition UrlCompanyRanking_init ::
  "(string \<Rightarrow> string \<Rightarrow> int) \<Rightarrow> (string \<Rightarrow> string \<Rightarrow> real) \<Rightarrow> (string \<Rightarrow> TLDExtract)
     \<Rightarrow> (string \<Rightarrow> string) \<Rightarrow> (string set \<Rightarrow> string)
     \<Rightarrow> string \<Rightarrow> string \<Rightarrow> TLDExtract option \<Rightarrow> UrlSearchStrings option
     \<Rightarrow> string set option \<Rightarrow> int option \<Rightarrow> real option \<Rightarrow> real option \<Rightarrow> real
     \<Rightarrow> py_error + UrlCompanyRanking" where
  "UrlCompanyRanking_init levenshtein ratio extract standard_postcode set_first
       url_arg company_name_arg url_extract url_analyse_arg company_postcodes_arg
       company_kvk_nummer_arg threshold_string_match_arg threshold_distance_arg
       max_url_score_arg =
     (let e = (case url_extract of None \<Rightarrow> extract url_arg | Some x \<Rightarrow> x);
          self0 = \<lparr>company_name = company_name_arg, url = url_arg,
                   company_postcodes = company_postcodes_arg,
                   company_kvk_nummer = company_kvk_nummer_arg,
                   url_analyse = url_analyse_arg,
                   threshold_string_match = threshold_string_match_arg,
                   threshold_distance = threshold_distance_arg,
                   max_url_score = max_url_score_arg,
                   ext = e, ranking = 0,
                   distance = None, string_match = None, url_match = None, url_rank = None,
                   has_postcode = False, has_kvk_nummer = False, has_btw_nummer = False,
                   btw_nummer = None, postcode_set = {}, kvk_set = {}, btw_set = {}\<rparr>;
          self1 = self0\<lparr>distance :=
                    Some (min (levenshtein (subdomain e) company_name_arg)
                              (levenshtein (domain e) company_name_arg))\<rparr>;
          self2 = self1\<lparr>string_match :=
                    Some (max (ratio (subdomain e) company_name_arg)
                              (ratio (domain e) company_name_arg))\<rparr>
      in case rank_contact_list self2 of
           Inl err \<Rightarrow> Inl err
         | Inr self3 \<Rightarrow> get_ranking standard_postcode set_first self3)"

section \<open>Candidate collector: staleness policy and page analysis\<close>

text \<open>
  A row of the URL registry (\<^verbatim>\<open>UrlNL\<close>) and a row of the \<^verbatim>\<open>Website\<close> table, with the
  fields the engine reads or writes. A \<^verbatim>\<open>datetime\<close> is an instant and a \<^verbatim>\<open>timedelta\<close> a
  duration, both counted in microseconds; \<open>None\<close> is the database NULL.
\<close>

record UrlNL =
  nl_url :: string
  nl_datetime :: "int option"
  nl_suffix :: "string option"
  nl_subdomain :: "string option"
  nl_domain :: "string option"
  nl_bestaat :: "bool option"
  nl_ssl :: "bool option"
  nl_ssl_invalid :: "bool option"
  nl_ecommerce :: "string option"
  nl_social_media :: "string option"
  all_psc :: "string option"
  all_btw :: "string option"
  all_kvk :: "string option"
  nl_kvk_nummer :: "int option"
  nl_post_code :: "string option"
  nl_btw_nummer :: "string option"

record Website =
  web_url :: "string option"
  web_naam :: "string option"
  web_bestaat :: "bool option"
  web_getest :: "bool option"
  web_best_match :: "bool option"
  web_has_postcode :: "bool option"
  web_ranking :: "real option"
  web_string_match :: "real option"
  web_levenshtein :: "int option"
  web_url_match :: "real option"
  web_url_rank :: "real option"
  web_has_kvk_nr :: "bool option"
  web_has_btw_nr :: "bool option"

definition check_if_url_needs_update ::
  "int \<Rightarrow> int option \<Rightarrow> UrlNL \<Rightarrow> TLDExtract \<Rightarrow> bool \<times> UrlNL" where
  \<comment> \<open>\<open>now\<close> is \<^verbatim>\<open>datetime.datetime.now(...)\<close>, \<open>older_time\<close> is \<^verbatim>\<open>self.older_time\<close>. A
      \<^verbatim>\<open>datetime\<close> is always true in a condition, a \<^verbatim>\<open>timedelta\<close> is true unless it is zero.\<close>
  "check_if_url_needs_update now older_time url_nl url_extract =
     (let processing_time = nl_datetime url_nl;
          url_needs_update =
            (case (processing_time, older_time) of
               (Some pt, Some ot) \<Rightarrow>
                 if ot \<noteq> 0
                 then (let delta_time = now - pt in if delta_time < ot then False else True)
                 else True
             | _ \<Rightarrow> True)
      in if url_needs_update
         then (True, url_nl\<lparr>nl_datetime := Some now,
                            nl_suffix := Some (suffix url_extract),
                            nl_subdomain := Some (subdomain url_extract),
                            nl_domain := Some (domain url_extract)\<rparr>)
         else (False, url_nl))"

fun split_on :: "char \<Rightarrow> string \<Rightarrow> string list" where
  \<comment> \<open>\<^verbatim>\<open>s.split(c)\<close> for a separator of one character\<close>
  "split_on c [] = [[]]"
| "split_on c (x # xs) =
     (if x = c then [] # split_on c xs
      else (case split_on c xs of
              [] \<Rightarrow> [[x]]
            | y # ys \<Rightarrow> (x # y) # ys))"

definition stored_list :: "string option \<Rightarrow> string list \<Rightarrow> string list" where
  \<comment> \<open>a stored delimited field replaces a match list unless it is NULL or empty\<close>
  "stored_list field current =
     (case field of
        None \<Rightarrow> current
      | Some s \<Rightarrow> if s \<noteq> [] then split_on CHR '','' s else current)"

definition collect_providers :: "string list \<Rightarrow> string list \<Rightarrow> string list" where
  \<comment> \<open>the loop over the external links: provider domains in order of first occurrence\<close>
  "collect_providers providers doms =
     fold (\<lambda>dom acc. if dom \<in> set providers \<and> dom \<notin> set acc then acc @ [dom] else acc) doms []"

text \<open>
  \<open>search url scrape_url\<close> is the constructor \<^verbatim>\<open>UrlSearchStrings(url, ..., scrape_url=...)\<close> of
  \<^verbatim>\<open>cbs_utils\<close>: the page is fetched only when \<open>scrape_url\<close> is true. \<open>extract_domain\<close> is
  \<^verbatim>\<open>tldextract.extract(x).domain\<close>; \<open>all_social_media\<close> and \<open>all_ecommerce\<close> are the lower-case
  provider lists and \<open>paste_strings\<close> joins with the field limit (constants of
  \<^verbatim>\<open>kvk_url_finder.models\<close> and a helper of \<^verbatim>\<open>kvk_url_finder.utils\<close>, taken as parameters).
\<close>

definition scrape_url_and_store_in_tables ::
  "(string \<Rightarrow> bool \<Rightarrow> UrlSearchStrings) \<Rightarrow> (string option \<Rightarrow> string) \<Rightarrow> string list \<Rightarrow> string list
     \<Rightarrow> (string list \<Rightarrow> string)
     \<Rightarrow> string \<Rightarrow> Website \<Rightarrow> UrlNL \<Rightarrow> bool \<Rightarrow> UrlSearchStrings \<times> Website \<times> UrlNL" where
  "scrape_url_and_store_in_tables search extract_domain all_social_media all_ecommerce
       paste_strings url_arg web url_nl url_needs_update =
     (let url_analyse0 = search url_arg url_needs_update;
          web1 = web\<lparr>web_getest := Some True\<rparr>;
          (url_analyse1, url_nl1) =
            (if \<not> url_needs_update
             then (url_analyse0\<lparr>exists := True,
                     matches := (matches url_analyse0)
                       (POSTAL_CODE_KEY := stored_list (all_psc url_nl)
                                             (matches url_analyse0 POSTAL_CODE_KEY),
                        BTW_KEY := stored_list (all_btw url_nl) (matches url_analyse0 BTW_KEY),
                        KVK_KEY := stored_list (all_kvk url_nl) (matches url_analyse0 KVK_KEY))\<rparr>,
                   url_nl)
             else
               (let doms = map extract_domain (external_hrefs url_analyse0);
                    sm_list = collect_providers all_social_media doms;
                    ec_list = collect_providers all_ecommerce doms;
                    nl1 = (if ec_list \<noteq> [] then url_nl\<lparr>nl_ecommerce := Some (paste_strings ec_list)\<rparr>
                           else url_nl);
                    nl2 = (if sm_list \<noteq> [] then nl1\<lparr>nl_social_media := Some (paste_strings sm_list)\<rparr>
                           else nl1);
                    nl3 = (if exists url_analyse0
                           then nl2\<lparr>nl_bestaat := Some True,
                                    nl_ssl := Some (req_ssl url_analyse0),
                                    nl_ssl_invalid := Some (req_ssl_invalid url_analyse0)\<rparr>
                           else nl2)
                in (url_analyse0, nl3)));
          web2 = (if \<not> exists url_analyse1 then web1\<lparr>web_bestaat := Some False\<rparr>
                  else web1\<lparr>web_bestaat := Some True\<rparr>)
      in (url_analyse1, web2, url_nl1))"

text \<open>
  Lines 1512-1524 of \<^verbatim>\<open>collect_web_sites\<close>: the staleness decision, the reset of the Website
  row, and the page analysis when \<^verbatim>\<open>internet_scraping\<close> is on.
\<close>

definition update_and_scrape ::
  "(string \<Rightarrow> bool \<Rightarrow> UrlSearchStrings) \<Rightarrow> (string option \<Rightarrow> string) \<Rightarrow> string list \<Rightarrow> string list
     \<Rightarrow> (string list \<Rightarrow> string)
     \<Rightarrow> int \<Rightarrow> int option \<Rightarrow> bool \<Rightarrow> string
     \<Rightarrow> string \<Rightarrow> TLDExtract \<Rightarrow> Website \<Rightarrow> UrlNL
     \<Rightarrow> bool \<times> UrlSearchStrings option \<times> Website \<times> UrlNL" where
  "update_and_scrape search extract_domain all_social_media all_ecommerce paste_strings
       now older_time internet_scraping company_name_arg url_arg url_extract web url_nl =
     (let (url_needs_update, url_nl1) = check_if_url_needs_update now older_time url_nl url_extract;
          web1 = web\<lparr>web_naam := Some company_name_arg, web_bestaat := Some False,
                     web_getest := Some False\<rparr>
      in if internet_scraping
         then (let (url_analyse, web2, url_nl2) =
                     scrape_url_and_store_in_tables search extract_domain all_social_media
                       all_ecommerce paste_strings url_arg web1 url_nl1 url_needs_update
               in (url_needs_update, Some url_analyse, web2, url_nl2))
         else (url_needs_update, None, web1, url_nl1))"

section \<open>The shortlist data frame and the company-match coordinator\<close>

text \<open>
  A row of the data frame \<^verbatim>\<open>web_df\<close>. The frame is created with empty cells (NaN), so every cell
  is an option; \<open>row_index\<close> is the index label, the position of the candidate among the
  company's websites. The columns are those of \<^verbatim>\<open>WEB_DF_COLS\<close> in the order in which
  \<^verbatim>\<open>collect_web_sites\<close> fills a row; \<open>df_dist_str_match\<close> is the column
  \<^verbatim>\<open>DISTANCE_STRING_MATCH_KEY\<close>.
\<close>

record web_row =
  row_index :: nat
  df_url :: "string option"
  df_exists :: "bool option"
  df_distance :: "int option"
  df_string_match :: "real option"
  df_dist_str_match :: "real option"
  df_url_rank :: "real option"
  df_has_postcode :: "bool option"
  df_has_kvk_nr :: "bool option"
  df_subdomain :: "string option"
  df_domain :: "string option"
  df_suffix :: "string option"
  df_ranking :: "real option"

record Company =
  kvk_nummer :: int
  naam :: string
  co_url :: "string option"
  core_id :: "int option"
  co_ranking :: "real option"
  co_datetime :: "int option"
  websites :: "Website list"

text \<open>
  The state of \<^verbatim>\<open>CompanyUrlMatch\<close>: the company object with its prefetched websites, and the
  rows written to the database by \<^verbatim>\<open>save()\<close>, in order.
\<close>

datatype saved_row = SavedWebsite Website | SavedCompany Company

record match_state =
  company :: Company
  saved :: "saved_row list"

definition find_match_for_company ::
  "bool \<Rightarrow> int option \<Rightarrow> int \<Rightarrow> web_row list option \<Rightarrow> match_state
     \<Rightarrow> py_error option \<times> match_state" where
  \<comment> \<open>\<open>save\<close> is \<^verbatim>\<open>self.save\<close>, \<open>i_proc\<close> is \<^verbatim>\<open>self.i_proc\<close>, \<open>now\<close> the current time, \<open>web_df\<close> is
      \<^verbatim>\<open>self.urls.web_df\<close>; the first component of the result is the exception raised, if any\<close>
  "find_match_for_company save i_proc now web_df st =
     (case web_df of
        None \<Rightarrow> (None, st)
      | Some df \<Rightarrow>
          (case df of
             [] \<Rightarrow> (Some IndexError, st)
           | web_df_best # _ \<Rightarrow>
               (let web_match_index = row_index web_df_best;
                    ws = websites (company st)
                in if \<not> web_match_index < length ws then (Some IndexError, st)
                   else
                     (let web_match = (ws ! web_match_index)
                            \<lparr>web_best_match := Some True,
                             web_has_postcode := df_has_postcode web_df_best,
                             web_url := df_url web_df_best,
                             web_ranking := df_ranking web_df_best\<rparr>;
                          ws1 = ws[web_match_index := web_match];
                          saved1 = (if save then saved st @ map SavedWebsite ws1 else saved st);
                          company1 = (company st)
                            \<lparr>websites := ws1,
                             co_url := web_url web_match,
                             core_id := i_proc,
                             co_ranking := web_ranking web_match,
                             co_datetime := Some now\<rparr>;
                          saved2 = (if save then saved1 @ [SavedCompany company1] else saved1)
                      in (None, \<lparr>company = company1, saved = saved2\<rparr>)))))"

section \<open>The main matching loop\<close>

datatype log_record =
    Info_maximum_entries_reached
  | Info_stop_file_found
  | Debug_already_processed int string
  | Info_processing int string
  | Info_start_url_search
  | Debug_done_with string
  | Warning string

record run_state =
  log :: "log_record list"
  iterated :: nat
  matched :: "Company list"
  stop_file_removed :: bool

text \<open>
  The loop of \<^verbatim>\<open>find_best_matching_url\<close> over the rows of the query. \<open>stop_file cnt\<close> tells
  whether the file \<^verbatim>\<open>stop\<close> exists when row \<open>cnt\<close> is reached. \<open>matcher\<close> is the constructor
  \<^verbatim>\<open>CompanyUrlMatch(company, ...)\<close>: it returns the exception it raises, if any, and the
  company as it leaves it. \<open>iterated\<close> counts the rows that pass both stop tests, \<open>matched\<close>
  collects the companies for which the constructor returned.
\<close>

fun matching_loop ::
  "int option \<Rightarrow> bool \<Rightarrow> bool \<Rightarrow> (nat \<Rightarrow> bool) \<Rightarrow> (Company \<Rightarrow> py_error option \<times> Company)
     \<Rightarrow> nat \<Rightarrow> Company list \<Rightarrow> run_state \<Rightarrow> py_error option \<times> run_state" where
  "matching_loop maximum_entries force_process search_urls stop_file matcher cnt [] st = (None, st)"
| "matching_loop maximum_entries force_process search_urls stop_file matcher cnt (c # rest) st =
     (if maximum_entries \<noteq> None \<and> int cnt = the maximum_entries
      then (None, st\<lparr>log := log st @ [Info_maximum_entries_reached]\<rparr>)
      else if stop_file cnt
      then (None, st\<lparr>log := log st @ [Info_stop_file_found], stop_file_removed := True\<rparr>)
      else if core_id c \<noteq> None \<and> \<not> force_process
      then matching_loop maximum_entries force_process search_urls stop_file matcher (Suc cnt) rest
             (st\<lparr>log := log st @ [Debug_already_processed (kvk_nummer c) (naam c)],
                 iterated := Suc (iterated st)\<rparr>)
      else
        (let log1 = log st @ [Info_processing (kvk_nummer c) (naam c)]
                    @ (if search_urls then [Info_start_url_search] else [])
         in case matcher c of
              (None, c') \<Rightarrow>
                matching_loop maximum_entries force_process search_urls stop_file matcher
                  (Suc cnt) rest
                  (st\<lparr>log := log1 @ [Debug_done_with (naam c')],
                      iterated := Suc (iterated st),
                      matched := matched st @ [c']\<rparr>)
            | (Some (DatabaseError err), c') \<Rightarrow>
                matching_loop maximum_entries force_process search_urls stop_file matcher
                  (Suc cnt) rest
                  (st\<lparr>log := log1 @ [Warning err, Warning ''skipping''],
                      iterated := Suc (iterated st)\<rparr>)
            | (Some other, c') \<Rightarrow>
                (Some other, st\<lparr>log := log1, iterated := Suc (iterated st)\<rparr>)))"

definition in_process_range :: "int option \<Rightarrow> int option \<Rightarrow> Company \<Rightarrow> bool" where
  \<comment> \<open>the four queries of lines 486-507\<close>
  "in_process_range start stop c =
     (case (start, stop) of
        (None, None) \<Rightarrow> True
      | (None, Some b) \<Rightarrow> kvk_nummer c \<le> b
      | (Some a, None) \<Rightarrow> kvk_nummer c \<ge> a
      | (Some a, Some b) \<Rightarrow> a \<le> kvk_nummer c \<and> kvk_nummer c \<le> b)"

definition find_best_matching_url ::
  "int option \<Rightarrow> int option \<Rightarrow> int option \<Rightarrow> bool \<Rightarrow> bool \<Rightarrow> (nat \<Rightarrow> bool)
     \<Rightarrow> (Company \<Rightarrow> py_error option \<times> Company) \<Rightarrow> Company list
     \<Rightarrow> py_error option \<times> run_state" where
  "find_best_matching_url start stop maximum_entries force_process search_urls stop_file matcher
       companies =
     matching_loop maximum_entries force_process search_urls stop_file matcher 0
       (filter (in_process_range start stop) companies)
       \<lparr>log = [], iterated = 0, matched = [], stop_file_removed = False\<rparr>"

section \<open>Work partitioning: \<^verbatim>\<open>get_kvk_list_per_process\<close>\<close>

text \<open>
  The first loop selects the registration numbers to process from the rows of the query
  (registration number and \<^verbatim>\<open>core_id\<close>, ordered by registration number); the accumulator is
  \<^verbatim>\<open>number_in_range\<close> and the list \<^verbatim>\<open>kvk_to_process\<close>.
\<close>

fun select_kvk ::
  "int option \<Rightarrow> int option \<Rightarrow> int option \<Rightarrow> bool \<Rightarrow> (int \<times> int option) list
     \<Rightarrow> int \<Rightarrow> int list \<Rightarrow> int \<times> int list" where
  "select_kvk start stop maximum_entries force_process [] number_in_range kvk_to_process =
     (number_in_range, kvk_to_process)"
| "select_kvk start stop maximum_entries force_process (q # query) number_in_range kvk_to_process =
     (if maximum_entries \<noteq> None \<and> number_in_range \<ge> the maximum_entries
      then (number_in_range, kvk_to_process)
      else
        (let kvk = fst q in
         if (start \<noteq> None \<and> kvk < the start) \<or> (stop \<noteq> None \<and> kvk > the stop)
         then select_kvk start stop maximum_entries force_process query number_in_range
                kvk_to_process
         else if \<not> force_process \<and> snd q \<noteq> None
         then select_kvk start stop maximum_entries force_process query (number_in_range + 1)
                kvk_to_process
         else select_kvk start stop maximum_entries force_process query (number_in_range + 1)
                (kvk_to_process @ [kvk])))"

definition py_slice :: "'a list \<Rightarrow> nat \<Rightarrow> nat option \<Rightarrow> 'a list" where
  \<comment> \<open>\<^verbatim>\<open>xs[a:b]\<close> and \<^verbatim>\<open>xs[a:]\<close> for bounds that are not negative\<close>
  "py_slice xs a b = (case b of None \<Rightarrow> drop a xs | Some b' \<Rightarrow> drop a (take b' xs))"

definition chunk_of :: "int list \<Rightarrow> nat \<Rightarrow> nat \<Rightarrow> nat \<Rightarrow> int list" where
  \<comment> \<open>\<^verbatim>\<open>kvk_list\<close> of process \<open>i_proc\<close> out of \<open>number_of_processes\<close> (lines 341-344)\<close>
  "chunk_of kvk_to_process number_of_processes n_per_proc i_proc =
     (if i_proc = number_of_processes - 1
      then py_slice kvk_to_process (i_proc * n_per_proc) None
      else py_slice kvk_to_process (i_proc * n_per_proc) (Some ((i_proc + 1) * n_per_proc)))"

definition range_of_chunk :: "int list \<Rightarrow> (int \<times> int) option" where
  \<comment> \<open>\<^verbatim>\<open>kvk_list[0]\<close> and \<^verbatim>\<open>kvk_list[-1]\<close>; \<open>None\<close> is the IndexError that the source catches\<close>
  "range_of_chunk kvk_list = (if kvk_list = [] then None else Some (hd kvk_list, last kvk_list))"

record partition_result =
  chunks :: "int list list"
  kvk_ranges :: "(int \<times> int) list"
  range_warnings :: nat

definition get_kvk_list_per_process ::
  "int option \<Rightarrow> int option \<Rightarrow> int option \<Rightarrow> bool \<Rightarrow> nat \<Rightarrow> (int \<times> int option) list
     \<Rightarrow> py_error + partition_result" where
  \<comment> \<open>\<open>chunks\<close> lists the \<^verbatim>\<open>kvk_list\<close> of each process, \<open>kvk_ranges\<close> is \<^verbatim>\<open>self.kvk_ranges\<close>,
      \<open>range_warnings\<close> counts the warnings of the \<^verbatim>\<open>except IndexError\<close> branch\<close>
  "get_kvk_list_per_process start stop maximum_entries force_process number_of_processes query =
     (let (number_in_range, kvk_to_process) =
            select_kvk start stop maximum_entries force_process query 0 [];
          n_kvk = length kvk_to_process
      in if number_in_range = 0 then Inl ValueError
         else if n_kvk = 0 then Inl ValueError
         else if n_kvk < number_of_processes then Inl ValueError
         else if number_of_processes = 0 then Inl ZeroDivisionError
         else
           (let n_per_proc = n_kvk div number_of_processes + n_kvk mod number_of_processes;
                cs = map (chunk_of kvk_to_process number_of_processes n_per_proc)
                       [0 ..< number_of_processes];
                rs = map range_of_chunk cs
            in Inr \<lparr>chunks = cs,
                    kvk_ranges = map the (filter (\<lambda>r. r \<noteq> None) rs),
                    range_warnings = length (filter (\<lambda>r. r = None) rs)\<rparr>))"

section \<open>Loading the URL table: \<^verbatim>\<open>remove_spurious_urls\<close>\<close>

text \<open>
  A row of the URL table read from the csv file, with the columns \<^verbatim>\<open>KVK_KEY\<close>, \<^verbatim>\<open>NAME_KEY\<close>
  and \<^verbatim>\<open>URL_KEY\<close>; an empty csv field is NaN, here \<open>None\<close>.
\<close>

record url_row =
  ur_kvk :: int
  ur_naam :: "string option"
  ur_url :: "string option"

definition occurrences :: "string \<Rightarrow> url_row list \<Rightarrow> nat" where
  "occurrences u urls = length (filter (\<lambda>x. ur_url x = Some u) urls)"

definition n_count :: "url_row list \<Rightarrow> url_row \<Rightarrow> nat option" where
  \<comment> \<open>\<^verbatim>\<open>urls.groupby(URL_KEY)[URL_KEY].transform("count")\<close>: the size of the group of the row's
      URL; a row without URL belongs to no group and gets NaN\<close>
  "n_count urls r = (case ur_url r of None \<Rightarrow> None | Some u \<Rightarrow> Some (occurrences u urls))"

definition drop_frequent :: "int \<Rightarrow> url_row list \<Rightarrow> url_row list" where
  \<comment> \<open>\<^verbatim>\<open>urls[n_count < self.n_count_threshold]\<close>; a comparison with NaN is false\<close>
  "drop_frequent n_count_threshold urls =
     filter (\<lambda>r. case n_count urls r of None \<Rightarrow> False | Some n \<Rightarrow> int n < n_count_threshold) urls"

definition index_key :: "url_row \<Rightarrow> int \<times> bool \<times> string" where
  \<comment> \<open>the index entry \<^verbatim>\<open>(KVK_KEY, URL_KEY)\<close> of a row, ordered with NaN last\<close>
  "index_key r = (ur_kvk r, case ur_url r of None \<Rightarrow> (True, []) | Some u \<Rightarrow> (False, u))"

fun not_duplicated :: "'k list \<Rightarrow> ('a \<Rightarrow> 'k) \<Rightarrow> 'a list \<Rightarrow> 'a list" where
  \<comment> \<open>\<^verbatim>\<open>df[~df.index.duplicated()]\<close>: the first row of every index entry; \<open>seen\<close> are the
      entries met so far\<close>
  "not_duplicated seen key [] = []"
| "not_duplicated seen key (x # xs) =
     (if key x \<in> set seen then not_duplicated seen key xs
      else x # not_duplicated (key x # seen) key xs)"

definition remove_spurious_urls :: "int \<Rightarrow> url_row list \<Rightarrow> url_row list" where
  "remove_spurious_urls n_count_threshold dataframe =
     (let urls = drop_frequent n_count_threshold dataframe;
          urls = sort_key index_key urls
      in not_duplicated [] index_key urls)"

section \<open>Shortlist reduction: \<^verbatim>\<open>get_best_matching_web_site\<close>\<close>









section \<open>Name cleaning: \<^verbatim>\<open>clean_name\<close>\<close>

text \<open>
  Each \<^verbatim>\<open>re.sub\<close> replaces the non-overlapping matches of its pattern from left to right. The
  patterns are translated by hand; none of them needs backtracking beyond what is written
  out below.
\<close>

fun skip_abbrev :: "string \<Rightarrow> string" where
  \<comment> \<open>what is left after the longest prefix of the form \<^verbatim>\<open>(\w\.)*\<close>\<close>
  "skip_abbrev (a # b # cs) = (if is_word a \<and> b = CHR ''.'' then skip_abbrev cs else a # b # cs)"
| "skip_abbrev cs = cs"

definition starts_abbrev :: "string \<Rightarrow> bool" where
  \<comment> \<open>the string starts with a match of \<^verbatim>\<open>\w\.\<close>\<close>
  "starts_abbrev cs = (case cs of a # b # _ \<Rightarrow> is_word a \<and> b = CHR ''.'' | _ \<Rightarrow> False)"

lemma length_skip_abbrev: "length (skip_abbrev cs) \<le> length cs"
  by (induction cs rule: skip_abbrev.induct) auto

function sub_abbrev :: "string \<Rightarrow> string" where
  \<comment> \<open>\<^verbatim>\<open>re.sub("\s(\w\.)+[\s]*", "", s)\<close>\<close>
  "sub_abbrev [] = []"
| "sub_abbrev (c # cs) =
     (if is_space c \<and> starts_abbrev cs
      then sub_abbrev (dropWhile is_space (skip_abbrev cs))
      else c # sub_abbrev cs)"
  by pat_completeness auto
termination
proof (relation "measure length")
  show "wf (measure length)" by simp
next
  fix c :: char and cs :: string
  have "length (dropWhile is_space (skip_abbrev cs)) \<le> length (skip_abbrev cs)"
    by (rule length_dropWhile_le)
  also have "\<dots> \<le> length cs" by (rule length_skip_abbrev)
  finally show "(dropWhile is_space (skip_abbrev cs), c # cs) \<in> measure length" by simp
next
  fix c :: char and cs :: string
  show "(cs, c # cs) \<in> measure length" by simp
qed

definition paren_tail :: "string \<Rightarrow> bool" where
  \<comment> \<open>the text after an opening parenthesis matches \<^verbatim>\<open>.*\).*$\<close>: up to a final line feed,
      which \<^verbatim>\<open>$\<close> allows, it holds no line feed and holds a closing parenthesis\<close>
  "paren_tail cs =
     (let body = (if cs \<noteq> [] \<and> last cs = CHR 0x0A then butlast cs else cs)
      in CHR 0x0A \<notin> set body \<and> CHR '')'' \<in> set body)"

fun sub_paren :: "string \<Rightarrow> string" where
  \<comment> \<open>\<^verbatim>\<open>re.sub("\(.*\).*$", "", s)\<close>: the match starts at the first parenthesis whose tail
      matches and ends at the end of the string, before a final line feed\<close>
  "sub_paren [] = []"
| "sub_paren (c # cs) =
     (if c = CHR ''('' \<and> paren_tail cs
      then (if cs \<noteq> [] \<and> last cs = CHR 0x0A then [CHR 0x0A] else [])
      else c # sub_paren cs)"

definition clean_name :: "string \<Rightarrow> string" where
  "clean_name naam_arg =
     (let naam_small = lower naam_arg;
          naam_small = sub_abbrev naam_small;
          naam_small = sub_paren naam_small;
          naam_small = filter (\<lambda>c. c \<noteq> CHR ''&'' \<and> c \<noteq> CHR 0x22) naam_small;
          naam_small = filter (\<lambda>c. \<not> is_space c) naam_small
      in naam_small)"

text \<open>
  A string has a parenthesis pair when an opening parenthesis is followed, anywhere later, by
  a closing one.
\<close>

fun has_paren_pair :: "string \<Rightarrow> bool" where
  "has_paren_pair [] = False"
| "has_paren_pair (c # cs) = ((c = CHR ''('' \<and> CHR '')'' \<in> set cs) \<or> has_paren_pair cs)"

section \<open>Candidate collector: \<^verbatim>\<open>collect_web_sites\<close> and the constructor of \<^verbatim>\<open>UrlCollection\<close>\<close>





















section \<open>Properties of the scoring engine\<close>

lemma score_fields_ranking:
  "ranking (score_fields sf s) =
     ranking s
     + (if (case company_postcodes s of None \<Rightarrow> False | Some pcs \<Rightarrow> pcs \<inter> postcode_set s \<noteq> {})
        then 3 else 0)
     + (if (case company_kvk_nummer s of None \<Rightarrow> False | Some kvk \<Rightarrow> kvk \<in> kvk_set s)
        then 3 else 0)"
  by (auto simp: score_fields_def Let_def split: option.splits)

lemma score_fields_flags:
  "has_postcode (score_fields sf s) =
     (case company_postcodes s of None \<Rightarrow> False | Some pcs \<Rightarrow> pcs \<inter> postcode_set s \<noteq> {})"
  "has_kvk_nummer (score_fields sf s) =
     ((case company_kvk_nummer s of None \<Rightarrow> False | Some kvk \<Rightarrow> kvk \<in> kvk_set s) \<or> has_kvk_nummer s)"
  "has_btw_nummer (score_fields sf s) = (btw_set s \<noteq> {} \<or> has_btw_nummer s)"
  "btw_nummer (score_fields sf s) =
     (if btw_set s \<noteq> {} then Some (strip_dots (sf (btw_set s))) else None)"
  by (auto simp: score_fields_def Let_def split: option.splits)

lemma score_fields_frame:
  "distance (score_fields sf s) = distance s"
  "string_match (score_fields sf s) = string_match s"
  "threshold_distance (score_fields sf s) = threshold_distance s"
  "max_url_score (score_fields sf s) = max_url_score s"
  "ext (score_fields sf s) = ext s"
  "postcode_set (score_fields sf s) = postcode_set s"
  "kvk_set (score_fields sf s) = kvk_set s"
  "btw_set (score_fields sf s) = btw_set s"
  "company_postcodes (score_fields sf s) = company_postcodes s"
  "company_kvk_nummer (score_fields sf s) = company_kvk_nummer s"
  by (simp_all add: score_fields_def Let_def split: option.splits)

lemma score_url_shape_Inr:
  assumes "distance s = Some d" "string_match s = Some sm"
      and "threshold_distance s = Some thr" "thr \<noteq> 0"
  shows "score_url_shape s =
           Inr (s\<lparr>url_match := Some (real_of_int d * (1 - sm)),
                  url_rank := Some (max (max_url_score s * (1 - real_of_int d * (1 - sm) / thr)) 0
                                    + suffix_bonus (suffix (ext s))
                                    + subdomain_bonus (subdomain (ext s))),
                  ranking := ranking s
                             + (max (max_url_score s * (1 - real_of_int d * (1 - sm) / thr)) 0
                                + suffix_bonus (suffix (ext s))
                                + subdomain_bonus (subdomain (ext s)))\<rparr>)"
  using assms by (simp add: score_url_shape_def Let_def)

lemma those_map_Some:
  "list_all (\<lambda>x. f x \<noteq> None) xs \<Longrightarrow> those (map f xs) = Some (map (\<lambda>x. the (f x)) xs)"
  by (induction xs) auto

lemma init_unfold:
  assumes "list_all (\<lambda>kvk. py_int (strip_dots kvk) \<noteq> None) (ranked_matches ua KVK_KEY)"
  shows "UrlCompanyRanking_init lev ratio extract sp sf u n (Some e) (Some ua) pcs kvk tsm td mus =
     score_url_shape (score_fields sf
       \<lparr>company_name = n, url = u, company_postcodes = pcs, company_kvk_nummer = kvk,
        url_analyse = Some (ua\<lparr>matches := ranked_matches ua\<rparr>),
        threshold_string_match = tsm, threshold_distance = td, max_url_score = mus,
        ext = e, ranking = 0,
        distance = Some (min (lev (subdomain e) n) (lev (domain e) n)),
        string_match = Some (max (ratio (subdomain e) n) (ratio (domain e) n)),
        url_match = None, url_rank = None,
        has_postcode = False, has_kvk_nummer = False, has_btw_nummer = False,
        btw_nummer = None,
        postcode_set = set (map sp (ranked_matches ua POSTAL_CODE_KEY)),
        kvk_set = set (map (\<lambda>kvk. the (py_int (strip_dots kvk))) (ranked_matches ua KVK_KEY)),
        btw_set = set (map strip_dots (ranked_matches ua BTW_KEY))\<rparr>)"
  using those_map_Some[OF assms]
  by (simp add: UrlCompanyRanking_init_def rank_contact_list_def get_ranking_def Let_def)

lemma py_int_ex: "py_int (strip_dots ''1.2'') = Some 12"
  by (simp add: py_int_def strip_dots_def is_int_space_def is_digit_def Let_def)

lemma py_int_12: "py_int ''12'' = Some 12"
  by (simp add: py_int_def is_int_space_def is_digit_def Let_def)

text \<open>
  Claim C2 (URL-shape score). For every scored (URL, company) pair with a configured non-zero
  distance threshold \<open>thr\<close> the constructor returns a result \<open>r\<close> with
  \<open>url_match = distance * (1 - string_match)\<close>, and \<open>url_rank\<close> is
  \<open>max (max_url_score * (1 - url_match / thr)) 0\<close> plus the suffix bonus (1 for com, org, eu;
  2 for nl; 0 otherwise) plus the subdomain bonus (2 for www; 1 for the empty subdomain;
  0 otherwise); the final ranking is the field bonuses plus this \<open>url_rank\<close>. The pair is
  scored when a page analysis is present and every registration-number match on the page
  converts to an integer.
\<close>

theorem url_shape_score:
  assumes "list_all (\<lambda>kvk. py_int (strip_dots kvk) \<noteq> None) (ranked_matches ua KVK_KEY)"
      and "thr \<noteq> 0"
  shows "\<exists>r. UrlCompanyRanking_init lev ratio extract sp sf u n (Some e) (Some ua) pcs kvk tsm
                (Some thr) mus = Inr r
          \<and> distance r = Some (min (lev (subdomain e) n) (lev (domain e) n))
          \<and> string_match r = Some (max (ratio (subdomain e) n) (ratio (domain e) n))
          \<and> url_match r = Some (real_of_int (the (distance r)) * (1 - the (string_match r)))
          \<and> url_rank r =
                Some (max (mus * (1 - the (url_match r) / thr)) 0
                      + (if suffix e \<in> {''com'', ''org'', ''eu''} then 1
                         else if suffix e = ''nl'' then 2 else 0)
                      + (if subdomain e = ''www'' then 2
                         else if subdomain e = [] then 1 else 0))
          \<and> ranking r =
                (if has_postcode r then 3 else 0) + (if has_kvk_nummer r then 3 else 0)
                + the (url_rank r)"
  unfolding init_unfold[OF assms(1)]
  by (simp add: score_url_shape_Inr[where thr = thr] score_fields_frame score_fields_ranking
        score_fields_flags assms(2) suffix_bonus_def subdomain_bonus_def)

text \<open>Witness of C2: distance 2, string match 1/2, threshold 10 and the URL www.acme.nl.\<close>

theorem url_shape_score_witness:
  "\<exists>r. UrlCompanyRanking_init (\<lambda>a b. 2) (\<lambda>a b. 1 / 2)
          (\<lambda>x. \<lparr>subdomain = [], domain = x, suffix = []\<rparr>) id (\<lambda>S. [])
          ''www.acme.nl'' ''acme'' (Some \<lparr>subdomain = ''www'', domain = ''acme'', suffix = ''nl''\<rparr>)
          (Some \<lparr>exists = True, matches = (\<lambda>k. []), url_per_match = (\<lambda>k. None),
                 external_hrefs = [], req_ssl = False, req_ssl_invalid = False\<rparr>)
          (Some {}) (Some 12345678) (Some (1 / 2)) (Some 10) 3 = Inr r
       \<and> url_match r = Some 1 \<and> url_rank r = Some (67 / 10)
       \<and> ranking r = (if has_postcode r then 3 else 0)
                     + (if has_kvk_nummer r then 3 else 0) + 67 / 10"
proof -
  have h: "list_all (\<lambda>kvk. py_int (strip_dots kvk) \<noteq> None)
             (ranked_matches \<lparr>exists = True, matches = (\<lambda>k. []), url_per_match = (\<lambda>k. None),
                external_hrefs = [], req_ssl = False, req_ssl_invalid = False\<rparr> KVK_KEY)"
    by (simp add: ranked_matches_def)
  have t: "(10::real) \<noteq> 0" by simp
  from url_shape_score[OF h t, of "\<lambda>a b. 2" "\<lambda>a b. 1 / 2"
      "\<lambda>x. \<lparr>subdomain = [], domain = x, suffix = []\<rparr>" id "\<lambda>S. []" "''www.acme.nl''" "''acme''"
      "\<lparr>subdomain = ''www'', domain = ''acme'', suffix = ''nl''\<rparr>" "Some {}" "Some 12345678"
      "Some (1 / 2)" 3]
  obtain r where r: "UrlCompanyRanking_init (\<lambda>a b. 2) (\<lambda>a b. 1 / 2)
          (\<lambda>x. \<lparr>subdomain = [], domain = x, suffix = []\<rparr>) id (\<lambda>S. [])
          ''www.acme.nl'' ''acme'' (Some \<lparr>subdomain = ''www'', domain = ''acme'', suffix = ''nl''\<rparr>)
          (Some \<lparr>exists = True, matches = (\<lambda>k. []), url_per_match = (\<lambda>k. None),
                 external_hrefs = [], req_ssl = False, req_ssl_invalid = False\<rparr>)
          (Some {}) (Some 12345678) (Some (1 / 2)) (Some 10) 3 = Inr r"
    and d: "distance r = Some 2" and sm: "string_match r = Some (1/2)"
    and um: "url_match r = Some (real_of_int (the (distance r)) * (1 - the (string_match r)))"
    and ur: "url_rank r = Some (max (3 * (1 - the (url_match r) / 10)) 0 + 2 + 2)"
    and rk: "ranking r = (if has_postcode r then 3 else 0) + (if has_kvk_nummer r then 3 else 0)
                + the (url_rank r)"
    by auto
  have "url_match r = Some 1" using um d sm by simp
  moreover have "url_rank r = Some (67 / 10)" using ur \<open>url_match r = Some 1\<close> by simp
  moreover have "ranking r = (if has_postcode r then 3 else 0)
      + (if has_kvk_nummer r then 3 else 0) + 67 / 10"
    using rk \<open>url_rank r = Some (67 / 10)\<close> by simp
  ultimately show ?thesis using r by blast
qed

text \<open>
  The field bonuses and flags of a scored pair: the ranking starts at 0, gets 3 for a postal
  code hit and 3 for a registration number hit and 0 for tax numbers, and what remains is the
  URL-shape score. The tax number recorded is \<^verbatim>\<open>list(self.btw_set)[0]\<close>, the first element in
  the iteration order of the set (the parameter \<open>sf\<close>).
\<close>

lemma field_bonuses_and_flags:
  assumes "list_all (\<lambda>kvk. py_int (strip_dots kvk) \<noteq> None) (ranked_matches ua KVK_KEY)"
      and "thr \<noteq> 0"
  shows "\<exists>r. UrlCompanyRanking_init lev ratio extract sp sf u n (Some e) (Some ua) pcs kvk tsm
                (Some thr) mus = Inr r
          \<and> postcode_set r = set (map sp (ranked_matches ua POSTAL_CODE_KEY))
          \<and> kvk_set r = set (map (\<lambda>s. the (py_int (strip_dots s))) (ranked_matches ua KVK_KEY))
          \<and> btw_set r = set (map strip_dots (ranked_matches ua BTW_KEY))
          \<and> has_postcode r =
                (case pcs of None \<Rightarrow> False | Some company_pcs \<Rightarrow> company_pcs \<inter> postcode_set r \<noteq> {})
          \<and> has_kvk_nummer r = (case kvk of None \<Rightarrow> False | Some k \<Rightarrow> k \<in> kvk_set r)
          \<and> has_btw_nummer r = (btw_set r \<noteq> {})
          \<and> btw_nummer r = (if btw_set r \<noteq> {} then Some (strip_dots (sf (btw_set r))) else None)
          \<and> ranking r =
                0 + (if has_postcode r then 3 else 0) + (if has_kvk_nummer r then 3 else 0)
                  + (if has_btw_nummer r then 0 else 0) + the (url_rank r)"
  unfolding init_unfold[OF assms(1)]
  by (simp add: score_url_shape_Inr[where thr = thr] score_fields_frame score_fields_ranking
        score_fields_flags assms(2) split: option.splits)

text \<open>
  Claim C3 (field-match bonuses). The bonuses and the flags are as claimed
  (\<open>field_bonuses_and_flags\<close>), the recorded tax number is not. The collector takes the first
  element of a match list as the closest match (its comment on the registration numbers: the
  set is sorted with a ranking, the first number has the closest match), and
  \<^verbatim>\<open>rank_contact_list\<close> orders the match lists for that purpose. \<^verbatim>\<open>get_ranking\<close> then turns
  the list of tax numbers into a \<^verbatim>\<open>set\<close> and records \<^verbatim>\<open>list(self.btw_set)[0]\<close>: the order of
  the list is lost, and which number comes first depends on the hash seed of the process.
  Below, a page with the tax numbers \<open>NL001234567B01\<close> and \<open>NL007654321B01\<close>, found in this
  order, is scored with the iteration order of CPython 3.11 under \<^verbatim>\<open>PYTHONHASHSEED=0\<close>, where
  the set of the two numbers starts with \<open>NL007654321B01\<close>: the flag is set, nothing is added
  to the ranking (7 is the URL-shape score of an exact name match on \<open>www.acme.nl\<close>), and the
  number recorded is the second of the list, not the first.
\<close>

theorem first_tax_number_not_recorded:
  "(case UrlCompanyRanking_init (\<lambda>a b. if a = b then 0 else 4) (\<lambda>a b. if a = b then 1 else 0)
          (\<lambda>x. \<lparr>subdomain = [], domain = x, suffix = []\<rparr>) id
          (\<lambda>S. if ''NL007654321B01'' \<in> S then ''NL007654321B01'' else ''NL001234567B01'')
          ''www.acme.nl'' ''acme''
          (Some \<lparr>subdomain = ''www'', domain = ''acme'', suffix = ''nl''\<rparr>)
          (Some \<lparr>exists = True, matches = (\<lambda>k. []),
                 url_per_match = (\<lambda>k. if k = BTW_KEY
                    then Some [(''NL001234567B01'', ''www.acme.nl/contact''),
                               (''NL007654321B01'', ''www.acme.nl'')]
                    else Some []),
                 external_hrefs = [], req_ssl = True, req_ssl_invalid = False\<rparr>)
          (Some {''1234AB''}) (Some 12345678) (Some (1 / 2)) (Some 10) 3 of
      Inl err \<Rightarrow> None
    | Inr r \<Rightarrow> Some (matches (the (url_analyse r)) BTW_KEY, has_btw_nummer r, btw_nummer r,
                      ranking r))
   = Some ([''NL001234567B01'', ''NL007654321B01''], True, Some ''NL007654321B01'', 7)"
  by (simp add: UrlCompanyRanking_init_def rank_contact_list_def ranked_matches_def
        get_ranking_def score_fields_def score_url_shape_def suffix_bonus_def
        subdomain_bonus_def strip_dots_def Let_def)

section \<open>Properties of the staleness policy\<close>

lemma needs_update_iff:
  "fst (check_if_url_needs_update now older_time url_nl e) =
     (case (nl_datetime url_nl, older_time) of
        (Some pt, Some ot) \<Rightarrow> ot = 0 \<or> \<not> (now - pt < ot)
      | _ \<Rightarrow> True)"
  by (auto simp add: check_if_url_needs_update_def Let_def split: option.splits)

lemma needs_update_entry:
  "snd (check_if_url_needs_update now older_time url_nl e) =
     (if fst (check_if_url_needs_update now older_time url_nl e)
      then url_nl\<lparr>nl_datetime := Some now, nl_suffix := Some (suffix e),
                   nl_subdomain := Some (subdomain e), nl_domain := Some (domain e)\<rparr>
      else url_nl)"
  by (simp add: check_if_url_needs_update_def Let_def split: option.splits)

lemma scrape_frame:
  "nl_datetime (snd (snd (scrape_url_and_store_in_tables search ed sm ec ps u web nl b))) = nl_datetime nl"
  "nl_suffix (snd (snd (scrape_url_and_store_in_tables search ed sm ec ps u web nl b))) = nl_suffix nl"
  "nl_subdomain (snd (snd (scrape_url_and_store_in_tables search ed sm ec ps u web nl b))) = nl_subdomain nl"
  "nl_domain (snd (snd (scrape_url_and_store_in_tables search ed sm ec ps u web nl b))) = nl_domain nl"
  by (simp_all add: scrape_url_and_store_in_tables_def Let_def)

lemma scrape_skip:
  "fst (scrape_url_and_store_in_tables search ed sm ec ps u web nl False) =
     (search u False)\<lparr>exists := True,
        matches := (matches (search u False))
          (POSTAL_CODE_KEY := stored_list (all_psc nl) (matches (search u False) POSTAL_CODE_KEY),
           BTW_KEY := stored_list (all_btw nl) (matches (search u False) BTW_KEY),
           KVK_KEY := stored_list (all_kvk nl) (matches (search u False) KVK_KEY))\<rparr>"
  by (simp add: scrape_url_and_store_in_tables_def Let_def)

lemma scrape_skip_entry:
  "snd (snd (scrape_url_and_store_in_tables search ed sm ec ps u web nl False)) = nl"
  by (simp add: scrape_url_and_store_in_tables_def Let_def)

lemma scrape_fetch:
  "fst (scrape_url_and_store_in_tables search ed sm ec ps u web nl True) = search u True"
  by (simp add: scrape_url_and_store_in_tables_def Let_def)

text \<open>
  Claim C4 (staleness policy). For a registry entry with a prior processing timestamp \<open>pt\<close>
  and a configured staleness window \<open>ot\<close>, the entry needs updating if and only if the
  elapsed time \<open>now - pt\<close> is not less than the window; an entry without timestamp always
  needs updating; whenever the entry needs updating, its timestamp, suffix, subdomain and
  domain are set to the current values by the decision itself, which precedes the page
  analysis; and in the candidate step with live fetching enabled, a fresh entry is analysed
  without fetching (\<open>scrape_url = False\<close>) and the analysis is rebuilt from the stored
  delimited lists, while a stale entry is fetched with its fields already updated.

  The source tests the window by its truth value, so a window of zero counts as not
  configured. The first part is therefore stated for every window that is not zero and, for
  a window of zero, for every timestamp that is prior in the literal sense (not later than
  the current time); \<open>needs_update_iff\<close> gives the decision in every case.
\<close>

theorem staleness_policy:
  "(\<forall>pt ot. nl_datetime url_nl = Some pt \<and> older_time = Some ot \<and> (ot \<noteq> 0 \<or> pt \<le> now) \<longrightarrow>
       (fst (check_if_url_needs_update now older_time url_nl e) \<longleftrightarrow> \<not> (now - pt < ot)))
   \<and> (nl_datetime url_nl = None \<longrightarrow> fst (check_if_url_needs_update now older_time url_nl e))
   \<and> (fst (check_if_url_needs_update now older_time url_nl e) \<longrightarrow>
        snd (check_if_url_needs_update now older_time url_nl e) =
          url_nl\<lparr>nl_datetime := Some now, nl_suffix := Some (suffix e),
                   nl_subdomain := Some (subdomain e), nl_domain := Some (domain e)\<rparr>)
   \<and> (case update_and_scrape search ed sm ec ps now older_time True n u e web url_nl of
        (needs_update, analysis, web', url_nl') \<Rightarrow>
          needs_update = fst (check_if_url_needs_update now older_time url_nl e)
          \<and> (if needs_update
             then analysis = Some (search u True)
                  \<and> nl_datetime url_nl' = Some now \<and> nl_suffix url_nl' = Some (suffix e)
                  \<and> nl_subdomain url_nl' = Some (subdomain e)
                  \<and> nl_domain url_nl' = Some (domain e)
             else url_nl' = url_nl
                  \<and> analysis = Some ((search u False)\<lparr>exists := True,
                       matches := (matches (search u False))
                         (POSTAL_CODE_KEY := stored_list (all_psc url_nl)
                                               (matches (search u False) POSTAL_CODE_KEY),
                          BTW_KEY := stored_list (all_btw url_nl)
                                       (matches (search u False) BTW_KEY),
                          KVK_KEY := stored_list (all_kvk url_nl)
                                       (matches (search u False) KVK_KEY))\<rparr>)))"
proof (intro conjI)
  show "\<forall>pt ot. nl_datetime url_nl = Some pt \<and> older_time = Some ot \<and> (ot \<noteq> 0 \<or> pt \<le> now) \<longrightarrow>
       (fst (check_if_url_needs_update now older_time url_nl e) \<longleftrightarrow> \<not> (now - pt < ot))"
    by (auto simp: needs_update_iff)
  show "nl_datetime url_nl = None \<longrightarrow> fst (check_if_url_needs_update now older_time url_nl e)"
    by (simp add: needs_update_iff)
  show "fst (check_if_url_needs_update now older_time url_nl e) \<longrightarrow>
        snd (check_if_url_needs_update now older_time url_nl e) =
          url_nl\<lparr>nl_datetime := Some now, nl_suffix := Some (suffix e),
                   nl_subdomain := Some (subdomain e), nl_domain := Some (domain e)\<rparr>"
    by (simp add: needs_update_entry)
  show "case update_and_scrape search ed sm ec ps now older_time True n u e web url_nl of
        (needs_update, analysis, web', url_nl') \<Rightarrow>
          needs_update = fst (check_if_url_needs_update now older_time url_nl e)
          \<and> (if needs_update
             then analysis = Some (search u True)
                  \<and> nl_datetime url_nl' = Some now \<and> nl_suffix url_nl' = Some (suffix e)
                  \<and> nl_subdomain url_nl' = Some (subdomain e)
                  \<and> nl_domain url_nl' = Some (domain e)
             else url_nl' = url_nl
                  \<and> analysis = Some ((search u False)\<lparr>exists := True,
                       matches := (matches (search u False))
                         (POSTAL_CODE_KEY := stored_list (all_psc url_nl)
                                               (matches (search u False) POSTAL_CODE_KEY),
                          BTW_KEY := stored_list (all_btw url_nl)
                                       (matches (search u False) BTW_KEY),
                          KVK_KEY := stored_list (all_kvk url_nl)
                                       (matches (search u False) KVK_KEY))\<rparr>))"
  proof (cases "fst (check_if_url_needs_update now older_time url_nl e)")
    case True
    then obtain nl1 where c: "check_if_url_needs_update now older_time url_nl e = (True, nl1)"
      and nl1: "nl1 = url_nl\<lparr>nl_datetime := Some now, nl_suffix := Some (suffix e),
                   nl_subdomain := Some (subdomain e), nl_domain := Some (domain e)\<rparr>"
      using needs_update_entry[of now older_time url_nl e]
      by (cases "check_if_url_needs_update now older_time url_nl e") auto
    show ?thesis
      using scrape_frame[of search ed sm ec ps u
          "web\<lparr>web_naam := Some n, web_bestaat := Some False, web_getest := Some False\<rparr>" nl1 True]
        scrape_fetch[of search ed sm ec ps u
          "web\<lparr>web_naam := Some n, web_bestaat := Some False, web_getest := Some False\<rparr>" nl1]
      by (auto simp add: update_and_scrape_def c nl1 split: prod.splits)
  next
    case False
    then have c: "check_if_url_needs_update now older_time url_nl e = (False, url_nl)"
      using needs_update_entry[of now older_time url_nl e]
      by (cases "check_if_url_needs_update now older_time url_nl e") auto
    show ?thesis
      using scrape_skip[of search ed sm ec ps u
          "web\<lparr>web_naam := Some n, web_bestaat := Some False, web_getest := Some False\<rparr>" url_nl]
        scrape_skip_entry[of search ed sm ec ps u
          "web\<lparr>web_naam := Some n, web_bestaat := Some False, web_getest := Some False\<rparr>" url_nl]
      by (auto simp add: update_and_scrape_def c split: prod.splits)
  qed
qed

lemma split_on_example: "split_on CHR '','' ''1234AB,5678CD'' = [''1234AB'', ''5678CD'']"
  by simp

text \<open>
  Witness of C4: an entry processed one hour ago is not fetched again under a window of two
  hours, and its postal codes are rebuilt from the stored list; under a window of thirty
  minutes it needs updating and gets the current timestamp.
\<close>

theorem staleness_policy_witness:
  "\<not> fst (check_if_url_needs_update 3600000000 (Some 7200000000)
            \<lparr>nl_url = ''acme.nl'', nl_datetime = Some 0, nl_suffix = None, nl_subdomain = None,
             nl_domain = None, nl_bestaat = None, nl_ssl = None, nl_ssl_invalid = None,
             nl_ecommerce = None, nl_social_media = None, all_psc = Some ''1234AB,5678CD'',
             all_btw = None, all_kvk = Some [], nl_kvk_nummer = None, nl_post_code = None,
             nl_btw_nummer = None\<rparr>
            \<lparr>subdomain = [], domain = ''acme'', suffix = ''nl''\<rparr>)
   \<and> fst (check_if_url_needs_update 3600000000 (Some 1800000000)
            \<lparr>nl_url = ''acme.nl'', nl_datetime = Some 0, nl_suffix = None, nl_subdomain = None,
             nl_domain = None, nl_bestaat = None, nl_ssl = None, nl_ssl_invalid = None,
             nl_ecommerce = None, nl_social_media = None, all_psc = Some ''1234AB,5678CD'',
             all_btw = None, all_kvk = Some [], nl_kvk_nummer = None, nl_post_code = None,
             nl_btw_nummer = None\<rparr>
            \<lparr>subdomain = [], domain = ''acme'', suffix = ''nl''\<rparr>)
   \<and> nl_datetime (snd (check_if_url_needs_update 3600000000 (Some 1800000000)
            \<lparr>nl_url = ''acme.nl'', nl_datetime = Some 0, nl_suffix = None, nl_subdomain = None,
             nl_domain = None, nl_bestaat = None, nl_ssl = None, nl_ssl_invalid = None,
             nl_ecommerce = None, nl_social_media = None, all_psc = Some ''1234AB,5678CD'',
             all_btw = None, all_kvk = Some [], nl_kvk_nummer = None, nl_post_code = None,
             nl_btw_nummer = None\<rparr>
            \<lparr>subdomain = [], domain = ''acme'', suffix = ''nl''\<rparr>)) = Some 3600000000
   \<and> (case update_and_scrape (\<lambda>u b. \<lparr>exists = b, matches = (\<lambda>k. []), url_per_match = (\<lambda>k. None),
                       external_hrefs = [], req_ssl = False, req_ssl_invalid = False\<rparr>)
            (\<lambda>x. []) [] [] (\<lambda>xs. []) 3600000000 (Some 7200000000) True ''Acme'' ''acme.nl''
            \<lparr>subdomain = [], domain = ''acme'', suffix = ''nl''\<rparr>
            \<lparr>web_url = Some ''acme.nl'', web_naam = None, web_bestaat = None, web_getest = None,
             web_best_match = None, web_has_postcode = None, web_ranking = None,
             web_string_match = None, web_levenshtein = None, web_url_match = None,
             web_url_rank = None, web_has_kvk_nr = None, web_has_btw_nr = None\<rparr>
            \<lparr>nl_url = ''acme.nl'', nl_datetime = Some 0, nl_suffix = None, nl_subdomain = None,
             nl_domain = None, nl_bestaat = None, nl_ssl = None, nl_ssl_invalid = None,
             nl_ecommerce = None, nl_social_media = None, all_psc = Some ''1234AB,5678CD'',
             all_btw = None, all_kvk = Some [], nl_kvk_nummer = None, nl_post_code = None,
             nl_btw_nummer = None\<rparr> of
         (needs_update, analysis, web', url_nl') \<Rightarrow>
           \<not> needs_update
           \<and> map_option (\<lambda>a. (exists a, matches a POSTAL_CODE_KEY)) analysis
               = Some (True, [''1234AB'', ''5678CD''])
           \<and> nl_datetime url_nl' = Some 0)"
proof -
  let ?search = "(\<lambda>u b. \<lparr>exists = b, matches = (\<lambda>k. []), url_per_match = (\<lambda>k. None),
                       external_hrefs = [], req_ssl = False, req_ssl_invalid = False\<rparr>)"
  let ?web = "\<lparr>web_url = Some ''acme.nl'', web_naam = None, web_bestaat = None, web_getest = None,
             web_best_match = None, web_has_postcode = None, web_ranking = None,
             web_string_match = None, web_levenshtein = None, web_url_match = None,
             web_url_rank = None, web_has_kvk_nr = None, web_has_btw_nr = None\<rparr>"

  let ?nl = "\<lparr>nl_url = ''acme.nl'', nl_datetime = Some 0, nl_suffix = None, nl_subdomain = None,
             nl_domain = None, nl_bestaat = None, nl_ssl = None, nl_ssl_invalid = None,
             nl_ecommerce = None, nl_social_media = None, all_psc = Some ''1234AB,5678CD'',
             all_btw = None, all_kvk = Some [], nl_kvk_nummer = None, nl_post_code = None,
             nl_btw_nummer = None\<rparr>"
  let ?e = "\<lparr>subdomain = [], domain = ''acme'', suffix = ''nl''\<rparr>"
  have h2: "nl_datetime ?nl = Some 0 \<and> Some (7200000000::int) = Some 7200000000
              \<and> ((7200000000::int) \<noteq> 0 \<or> (0::int) \<le> 3600000000)"
    by simp
  have h30: "nl_datetime ?nl = Some 0 \<and> Some (1800000000::int) = Some 1800000000
              \<and> ((1800000000::int) \<noteq> 0 \<or> (0::int) \<le> 3600000000)"
    by simp
  have a: "\<not> fst (check_if_url_needs_update 3600000000 (Some 7200000000) ?nl ?e)"
    using staleness_policy[where url_nl = ?nl and now = 3600000000
        and older_time = "Some 7200000000" and e = ?e and search = ?search and ed = "\<lambda>x. []"
        and sm = "[]" and ec = "[]" and ps = "\<lambda>xs. []" and n = "''Acme''" and u = "''acme.nl''"
        and web = ?web] h2
    by simp
  have b: "fst (check_if_url_needs_update 3600000000 (Some 1800000000) ?nl ?e)"
    using staleness_policy[where url_nl = ?nl and now = 3600000000
        and older_time = "Some 1800000000" and e = ?e and search = ?search and ed = "\<lambda>x. []"
        and sm = "[]" and ec = "[]" and ps = "\<lambda>xs. []" and n = "''Acme''" and u = "''acme.nl''"
        and web = ?web] h30
    by simp
  have c: "nl_datetime (snd (check_if_url_needs_update 3600000000 (Some 1800000000) ?nl ?e))
             = Some 3600000000"
    using staleness_policy[where url_nl = ?nl and now = 3600000000
        and older_time = "Some 1800000000" and e = ?e and search = ?search and ed = "\<lambda>x. []"
        and sm = "[]" and ec = "[]" and ps = "\<lambda>xs. []" and n = "''Acme''" and u = "''acme.nl''"
        and web = ?web] b
    by simp
  have d: "(case update_and_scrape ?search
            (\<lambda>x. []) [] [] (\<lambda>xs. []) 3600000000 (Some 7200000000) True ''Acme'' ''acme.nl''
            ?e
            ?web
            ?nl of
         (needs_update, analysis, web', url_nl') \<Rightarrow>
           \<not> needs_update
           \<and> map_option (\<lambda>a. (exists a, matches a POSTAL_CODE_KEY)) analysis
               = Some (True, [''1234AB'', ''5678CD''])
           \<and> nl_datetime url_nl' = Some 0)"
    using staleness_policy[where url_nl = ?nl and now = 3600000000
        and older_time = "Some 7200000000" and e = ?e and search = ?search and ed = "\<lambda>x. []"
        and sm = "[]" and ec = "[]" and ps = "\<lambda>xs. []" and n = "''Acme''" and u = "''acme.nl''"
        and web = ?web] a
    by (auto simp add: stored_list_def split: prod.splits)
  from a b c d show ?thesis by blast
qed

section \<open>Properties of the company-match coordinator\<close>

lemma find_match_empty_raises:
  "fst (find_match_for_company save i_proc now (Some []) st) = Some IndexError"
  by (simp add: find_match_for_company_def)

text \<open>
  Claim C6 (an empty shortlist leaves the company unmatched). When the candidate collection
  produces no shortlist row (there is no data frame, or the data frame has no row), the
  coordinator sets none of the fields \<open>url\<close>, \<open>core_id\<close>, \<open>ranking\<close> and \<open>datetime\<close> of the
  company and saves nothing: the whole state is left as it was, so \<open>core_id\<close> stays absent if
  it was. (On a data frame without rows the source leaves by an IndexError, see
  \<open>find_match_empty_raises\<close>; the company is untouched there as well.)
\<close>

theorem empty_shortlist_unmatched:
  assumes "web_df = None \<or> web_df = Some []"
  shows "snd (find_match_for_company save i_proc now web_df st) = st
         \<and> co_url (company (snd (find_match_for_company save i_proc now web_df st)))
             = co_url (company st)
         \<and> core_id (company (snd (find_match_for_company save i_proc now web_df st)))
             = core_id (company st)
         \<and> co_ranking (company (snd (find_match_for_company save i_proc now web_df st)))
             = co_ranking (company st)
         \<and> co_datetime (company (snd (find_match_for_company save i_proc now web_df st)))
             = co_datetime (company st)"
  using assms by (auto simp: find_match_for_company_def)

text \<open>Witness of C6: an unprocessed company and a data frame without rows.\<close>

theorem empty_shortlist_unmatched_witness:
  "core_id (company (snd (find_match_for_company True (Some 0) 1000 (Some [])
      \<lparr>company = \<lparr>kvk_nummer = 12345678, naam = ''Acme B.V.'', co_url = None, core_id = None,
                   co_ranking = None, co_datetime = None, websites = []\<rparr>,
       saved = []\<rparr>))) = None
   \<and> saved (snd (find_match_for_company True (Some 0) 1000 (Some [])
      \<lparr>company = \<lparr>kvk_nummer = 12345678, naam = ''Acme B.V.'', co_url = None, core_id = None,
                   co_ranking = None, co_datetime = None, websites = []\<rparr>,
       saved = []\<rparr>)) = []"
proof -
  have h: "Some ([]::web_row list) = None \<or> Some ([]::web_row list) = Some []" by simp
  show ?thesis
    using empty_shortlist_unmatched[OF h, of True "Some 0" 1000
        "\<lparr>company = \<lparr>kvk_nummer = 12345678, naam = ''Acme B.V.'', co_url = None, core_id = None,
                   co_ranking = None, co_datetime = None, websites = []\<rparr>,
         saved = []\<rparr>"]
    by simp
qed

section \<open>Properties of the main matching loop\<close>

lemma loop_max_reached:
  "int cnt = m \<Longrightarrow>
   matching_loop (Some m) force su sf matcher cnt (c # rest) st =
     (None, st\<lparr>log := log st @ [Info_maximum_entries_reached]\<rparr>)"
  by simp

lemma loop_stop_file:
  "mx = None \<or> int cnt \<noteq> the mx \<Longrightarrow> sf cnt \<Longrightarrow>
   matching_loop mx force su sf matcher cnt (c # rest) st =
     (None, st\<lparr>log := log st @ [Info_stop_file_found], stop_file_removed := True\<rparr>)"
  by auto

lemma loop_skip:
  "mx = None \<or> int cnt \<noteq> the mx \<Longrightarrow> \<not> sf cnt \<Longrightarrow> core_id c \<noteq> None \<Longrightarrow> \<not> force \<Longrightarrow>
   matching_loop mx force su sf matcher cnt (c # rest) st =
     matching_loop mx force su sf matcher (Suc cnt) rest
       (st\<lparr>log := log st @ [Debug_already_processed (kvk_nummer c) (naam c)],
           iterated := Suc (iterated st)\<rparr>)"
  by auto

lemma loop_matched:
  "mx = None \<or> int cnt \<noteq> the mx \<Longrightarrow> \<not> sf cnt \<Longrightarrow> core_id c = None \<or> force \<Longrightarrow>
   matcher c = (None, c') \<Longrightarrow>
   matching_loop mx force su sf matcher cnt (c # rest) st =
     matching_loop mx force su sf matcher (Suc cnt) rest
       (st\<lparr>log := log st @ [Info_processing (kvk_nummer c) (naam c)]
                    @ (if su then [Info_start_url_search] else [])
                    @ [Debug_done_with (naam c')],
           iterated := Suc (iterated st),
           matched := matched st @ [c']\<rparr>)"
  by (auto simp add: Let_def)

lemma loop_database_error:
  "mx = None \<or> int cnt \<noteq> the mx \<Longrightarrow> \<not> sf cnt \<Longrightarrow> core_id c = None \<or> force \<Longrightarrow>
   matcher c = (Some (DatabaseError err), c') \<Longrightarrow>
   matching_loop mx force su sf matcher cnt (c # rest) st =
     matching_loop mx force su sf matcher (Suc cnt) rest
       (st\<lparr>log := log st @ [Info_processing (kvk_nummer c) (naam c)]
                    @ (if su then [Info_start_url_search] else [])
                    @ [Warning err, Warning ''skipping''],
           iterated := Suc (iterated st)\<rparr>)"
  by (auto simp add: Let_def)

lemma loop_other_error:
  "mx = None \<or> int cnt \<noteq> the mx \<Longrightarrow> \<not> sf cnt \<Longrightarrow> core_id c = None \<or> force \<Longrightarrow>
   matcher c = (Some e, c') \<Longrightarrow> \<forall>msg. e \<noteq> DatabaseError msg \<Longrightarrow>
   matching_loop mx force su sf matcher cnt (c # rest) st =
     (Some e, st\<lparr>log := log st @ [Info_processing (kvk_nummer c) (naam c)]
                          @ (if su then [Info_start_url_search] else []),
                 iterated := Suc (iterated st)\<rparr>)"
  by (cases e) (auto simp add: Let_def)

lemma matching_loop_bound:
  assumes "int cnt \<le> m"
  shows "iterated (snd (matching_loop (Some m) force su sf matcher cnt cs st)) + cnt
           \<le> iterated st + nat m"
  using assms
proof (induction cs arbitrary: cnt st)
  case Nil
  then show ?case by simp
next
  case (Cons c cs)
  show ?case
  proof (cases "int cnt = m")
    case True
    then show ?thesis by (simp add: loop_max_reached del: matching_loop.simps)
  next
    case False
    then have nm: "Some m = None \<or> int cnt \<noteq> the (Some m)" by simp
    from False Cons.prems have lt: "int (Suc cnt) \<le> m" by simp
    note IH = Cons.IH[OF lt]
    show ?thesis
    proof (cases "sf cnt")
      case True
      then show ?thesis
        using Cons.prems by (simp add: loop_stop_file[where mx = "Some m" and sf = sf and cnt = cnt, OF nm] del: matching_loop.simps)
    next
      case nostop: False
      show ?thesis
      proof (cases "core_id c \<noteq> None \<and> \<not> force")
        case True
        then show ?thesis
          using IH[of "st\<lparr>log := log st @ [Debug_already_processed (kvk_nummer c) (naam c)],
                      iterated := Suc (iterated st)\<rparr>"]
          by (simp add: loop_skip[where mx = "Some m" and sf = sf and cnt = cnt, OF nm nostop] del: matching_loop.simps)
      next
        case False
        then have noskip: "core_id c = None \<or> force" by blast
        obtain e c' where mc: "matcher c = (e, c')" by (cases "matcher c")
        show ?thesis
        proof (cases e)
          case None
          then show ?thesis
            using IH[of "st\<lparr>log := log st @ [Info_processing (kvk_nummer c) (naam c)]
                               @ (if su then [Info_start_url_search] else [])
                               @ [Debug_done_with (naam c')],
                        iterated := Suc (iterated st), matched := matched st @ [c']\<rparr>"] mc
            by (simp add: loop_matched[where mx = "Some m" and sf = sf and cnt = cnt, OF nm nostop noskip] del: matching_loop.simps)
        next
          case (Some err)
          show ?thesis
          proof (cases "\<exists>msg. err = DatabaseError msg")
            case True
            then obtain msg where "err = DatabaseError msg" by blast
            then show ?thesis
              using Some mc
                IH[of "st\<lparr>log := log st @ [Info_processing (kvk_nummer c) (naam c)]
                                 @ (if su then [Info_start_url_search] else [])
                                 @ [Warning msg, Warning ''skipping''],
                          iterated := Suc (iterated st)\<rparr>"]
              by (simp add: loop_database_error[where mx = "Some m" and sf = sf and cnt = cnt, OF nm nostop noskip] del: matching_loop.simps)
          next
            case False
            then have "\<forall>msg. err \<noteq> DatabaseError msg" by blast
            from loop_other_error[where mx = "Some m" and sf = sf and cnt = cnt and matcher = matcher and c' = c' and force = force and su = su and rest = cs and st = st, OF nm nostop noskip _ this]
            show ?thesis
              using Some mc lt by (simp del: matching_loop.simps)
          qed
        qed
      qed
    qed
  qed
qed

lemma loop_step_cases:
  obtains
    (stop) st' where
      "matching_loop mx force su sf matcher cnt (c # rest) st = (None, st')"
      "iterated st' = iterated st" "matched st' = matched st"
  | (continue) st' where
      "matching_loop mx force su sf matcher cnt (c # rest) st =
         matching_loop mx force su sf matcher (Suc cnt) rest st'"
      "iterated st' = Suc (iterated st)"
      "length (matched st) \<le> length (matched st')"
      "length (matched st') \<le> Suc (length (matched st))"
  | (abort) e c' st' where
      "matcher c = (Some e, c')" "\<forall>msg. e \<noteq> DatabaseError msg"
      "matching_loop mx force su sf matcher cnt (c # rest) st = (Some e, st')"
      "iterated st' = Suc (iterated st)" "matched st' = matched st"
proof (cases "mx = None \<or> int cnt \<noteq> the mx")
  case False
  then show ?thesis by (intro stop[of "st\<lparr>log := log st @ [Info_maximum_entries_reached]\<rparr>"]) auto
next
  case nm: True
  show ?thesis
  proof (cases "sf cnt")
    case True
    show ?thesis
      by (rule stop[OF loop_stop_file[where sf = sf and cnt = cnt and matcher = matcher and c = c, OF nm True]]) simp_all
  next
    case nostop: False
    show ?thesis
    proof (cases "core_id c \<noteq> None \<and> \<not> force")
      case True
      then have a: "core_id c \<noteq> None" and b: "\<not> force" by blast+
      show ?thesis
        by (rule continue[OF loop_skip[where sf = sf and cnt = cnt and matcher = matcher and c = c, OF nm nostop a b]]) simp_all
    next
      case False
      then have noskip: "core_id c = None \<or> force" by blast
      obtain e c' where mc: "matcher c = (e, c')" by (cases "matcher c")
      show ?thesis
      proof (cases e)
        case None
        with mc have mc': "matcher c = (None, c')" by simp
        show ?thesis
          by (rule continue[OF loop_matched[where sf = sf and cnt = cnt and matcher = matcher and c = c, OF nm nostop noskip mc']])
            simp_all
      next
        case (Some err)
        show ?thesis
        proof (cases "\<exists>msg. err = DatabaseError msg")
          case True
          then obtain msg where "err = DatabaseError msg" by blast
          with mc Some have mc': "matcher c = (Some (DatabaseError msg), c')" by simp
          show ?thesis
            by (rule continue[OF loop_database_error[where sf = sf and cnt = cnt and matcher = matcher and c = c,
                    OF nm nostop noskip mc']]) simp_all
        next
          case False
          then have ne: "\<forall>msg. err \<noteq> DatabaseError msg" by blast
          from mc Some have mc': "matcher c = (Some err, c')" by simp
          show ?thesis
            by (rule abort[OF mc' ne loop_other_error[where sf = sf and cnt = cnt and matcher = matcher and c = c,
                    OF nm nostop noskip mc' ne]]) simp_all
        qed
      qed
    qed
  qed
qed

lemma matching_loop_matched_le:
  "length (matched (snd (matching_loop mx force su sf matcher cnt cs st))) + iterated st
     \<le> length (matched st) + iterated (snd (matching_loop mx force su sf matcher cnt cs st))"
proof (induction cs arbitrary: cnt st)
  case Nil
  then show ?case by simp
next
  case (Cons c cs)
  show ?case
  proof (cases rule: loop_step_cases[of mx force su sf matcher cnt c cs st])
    case (stop st')
    then show ?thesis by (simp del: matching_loop.simps)
  next
    case (continue st')
    then show ?thesis
      using Cons.IH[of "Suc cnt" st'] by (simp del: matching_loop.simps)
  next
    case (abort e c' st')
    then show ?thesis by (simp del: matching_loop.simps)
  qed
qed

lemma matching_loop_no_abort:
  assumes "\<forall>c \<in> set cs. \<forall>e c'. matcher c = (Some e, c') \<longrightarrow> (\<exists>msg. e = DatabaseError msg)"
  shows "fst (matching_loop mx force su sf matcher cnt cs st) = None"
  using assms
proof (induction cs arbitrary: cnt st)
  case Nil
  then show ?case by simp
next
  case (Cons c cs)
  show ?case
  proof (cases rule: loop_step_cases[of mx force su sf matcher cnt c cs st])
    case (stop st')
    then show ?thesis by (simp del: matching_loop.simps)
  next
    case (continue st')
    then show ?thesis
      using Cons.IH[of "Suc cnt" st'] Cons.prems by (simp del: matching_loop.simps)
  next
    case (abort e c' st')
    then show ?thesis using Cons.prems by auto
  qed
qed

text \<open>
  Claim C8 (per-company error containment). When the constructor \<open>CompanyUrlMatch\<close> raises a
  database error for a company that the loop processes, the error is caught, two warnings
  are logged (the error and \<open>skipping\<close>), and the loop goes on with the next row; hence a run in
  which the only exceptions raised are database errors is never aborted.
\<close>

theorem database_error_contained:
  "((mx = None \<or> int cnt \<noteq> the mx) \<and> \<not> stop_file cnt \<and> (core_id c = None \<or> force)
      \<and> matcher c = (Some (DatabaseError err), c') \<longrightarrow>
      matching_loop mx force su stop_file matcher cnt (c # rest) st =
        matching_loop mx force su stop_file matcher (Suc cnt) rest
          (st\<lparr>log := log st @ [Info_processing (kvk_nummer c) (naam c)]
                       @ (if su then [Info_start_url_search] else [])
                       @ [Warning err, Warning ''skipping''],
              iterated := Suc (iterated st)\<rparr>))
   \<and> ((\<forall>x \<in> set companies. \<forall>e x'. matcher x = (Some e, x') \<longrightarrow> (\<exists>msg. e = DatabaseError msg)) \<longrightarrow>
        fst (find_best_matching_url start stop mx force su stop_file matcher companies) = None)"
proof (intro conjI impI)
  assume a: "(mx = None \<or> int cnt \<noteq> the mx) \<and> \<not> stop_file cnt \<and> (core_id c = None \<or> force)
      \<and> matcher c = (Some (DatabaseError err), c')"
  then have nm: "mx = None \<or> int cnt \<noteq> the mx" and ns: "\<not> stop_file cnt"
    and sk: "core_id c = None \<or> force" and mc: "matcher c = (Some (DatabaseError err), c')"
    by blast+
  show "matching_loop mx force su stop_file matcher cnt (c # rest) st =
        matching_loop mx force su stop_file matcher (Suc cnt) rest
          (st\<lparr>log := log st @ [Info_processing (kvk_nummer c) (naam c)]
                       @ (if su then [Info_start_url_search] else [])
                       @ [Warning err, Warning ''skipping''],
              iterated := Suc (iterated st)\<rparr>)"
    by (rule loop_database_error[where sf = stop_file and cnt = cnt and matcher = matcher
          and c = c, OF nm ns sk mc])
next
  assume "\<forall>x \<in> set companies. \<forall>e x'. matcher x = (Some e, x') \<longrightarrow> (\<exists>msg. e = DatabaseError msg)"
  then have "\<forall>x \<in> set (filter (in_process_range start stop) companies).
               \<forall>e x'. matcher x = (Some e, x') \<longrightarrow> (\<exists>msg. e = DatabaseError msg)"
    by auto
  from matching_loop_no_abort[OF this]
  show "fst (find_best_matching_url start stop mx force su stop_file matcher companies) = None"
    by (simp add: find_best_matching_url_def)
qed

text \<open>
  Witness of C8: the first of two companies raises a database error; the run is not aborted,
  both warnings are logged and the second company is matched.
\<close>

theorem database_error_contained_witness:
  "fst (find_best_matching_url None None None False False (\<lambda>n. False)
          (\<lambda>c. if kvk_nummer c = 1 then (Some (DatabaseError ''connection lost''), c) else (None, c))
          [\<lparr>kvk_nummer = 1, naam = ''A'', co_url = None, core_id = None, co_ranking = None, co_datetime = None, websites = []\<rparr>,
           \<lparr>kvk_nummer = 2, naam = ''B'', co_url = None, core_id = None, co_ranking = None, co_datetime = None, websites = []\<rparr>]) = None
   \<and> map kvk_nummer (matched (snd (find_best_matching_url None None None False False (\<lambda>n. False)
          (\<lambda>c. if kvk_nummer c = 1 then (Some (DatabaseError ''connection lost''), c) else (None, c))
          [\<lparr>kvk_nummer = 1, naam = ''A'', co_url = None, core_id = None, co_ranking = None, co_datetime = None, websites = []\<rparr>,
           \<lparr>kvk_nummer = 2, naam = ''B'', co_url = None, core_id = None, co_ranking = None, co_datetime = None, websites = []\<rparr>]))) = [2]
   \<and> log (snd (find_best_matching_url None None None False False (\<lambda>n. False)
          (\<lambda>c. if kvk_nummer c = 1 then (Some (DatabaseError ''connection lost''), c) else (None, c))
          [\<lparr>kvk_nummer = 1, naam = ''A'', co_url = None, core_id = None, co_ranking = None, co_datetime = None, websites = []\<rparr>,
           \<lparr>kvk_nummer = 2, naam = ''B'', co_url = None, core_id = None, co_ranking = None, co_datetime = None, websites = []\<rparr>])) =
       [Info_processing 1 ''A'', Warning ''connection lost'', Warning ''skipping'',
        Info_processing 2 ''B'', Debug_done_with ''B'']"
proof -
  let ?m = "(\<lambda>c. if kvk_nummer c = 1 then (Some (DatabaseError ''connection lost''), c) else (None, c))"
  let ?cs = "[\<lparr>kvk_nummer = 1, naam = ''A'', co_url = None, core_id = None, co_ranking = None, co_datetime = None, websites = []\<rparr>,
           \<lparr>kvk_nummer = 2, naam = ''B'', co_url = None, core_id = None, co_ranking = None, co_datetime = None, websites = []\<rparr>]"
  have h: "\<forall>x \<in> set ?cs. \<forall>e x'. ?m x = (Some e, x') \<longrightarrow> (\<exists>msg. e = DatabaseError msg)"
    by simp
  from database_error_contained[where matcher = ?m and companies = ?cs and start = None
      and stop = None and mx = None and force = False and su = False and stop_file = "\<lambda>n. False"]
    h
  have a: "fst (find_best_matching_url None None None False False (\<lambda>n. False) ?m ?cs) = None"
    by blast
  have b: "map kvk_nummer (matched (snd (find_best_matching_url None None None False False
             (\<lambda>n. False) ?m ?cs))) = [2]"
    by (simp add: find_best_matching_url_def in_process_range_def)
  have c: "log (snd (find_best_matching_url None None None False False (\<lambda>n. False) ?m ?cs)) =
       [Info_processing 1 ''A'', Warning ''connection lost'', Warning ''skipping'',
        Info_processing 2 ''B'', Debug_done_with ''B'']"
    by (simp add: find_best_matching_url_def in_process_range_def)
  from a b c show ?thesis by blast
qed

text \<open>
  Claim C10 (the cap counts skipped rows). With \<open>maximum_entries = m\<close> and \<open>force_process\<close>
  false, the cap is compared with the enumeration counter of the rows of the range query:
  a row that is skipped because it is already processed advances the counter like any other
  row. So at most \<open>m\<close> rows are iterated, the matched companies are among the iterated rows,
  and their number can be strictly smaller than \<open>m\<close>: with \<open>m = 2\<close> and two processed rows
  in front of an unprocessed one, no company is matched.
\<close>

theorem maximum_entries_counts_skipped_rows:
  "(0 \<le> m \<longrightarrow>
      iterated (snd (find_best_matching_url start stop (Some m) False su sf matcher companies))
        \<le> nat m
      \<and> length (matched (snd (find_best_matching_url start stop (Some m) False su sf matcher
                                  companies)))
          \<le> iterated (snd (find_best_matching_url start stop (Some m) False su sf matcher
                                companies)))
   \<and> (int cnt \<noteq> m \<and> \<not> sf cnt \<and> core_id c \<noteq> None \<longrightarrow>
        matching_loop (Some m) False su sf matcher cnt (c # rest) st =
          matching_loop (Some m) False su sf matcher (Suc cnt) rest
            (st\<lparr>log := log st @ [Debug_already_processed (kvk_nummer c) (naam c)],
                iterated := Suc (iterated st)\<rparr>))
   \<and> iterated (snd (find_best_matching_url None None (Some 2) False False (\<lambda>n. False) (\<lambda>c. (None, c))
            [\<lparr>kvk_nummer = 1, naam = ''A'', co_url = None, core_id = Some 0, co_ranking = None, co_datetime = None, websites = []\<rparr>,
             \<lparr>kvk_nummer = 2, naam = ''B'', co_url = None, core_id = Some 0, co_ranking = None, co_datetime = None, websites = []\<rparr>,
             \<lparr>kvk_nummer = 3, naam = ''C'', co_url = None, core_id = None, co_ranking = None, co_datetime = None, websites = []\<rparr>])) = 2
   \<and> matched (snd (find_best_matching_url None None (Some 2) False False (\<lambda>n. False) (\<lambda>c. (None, c))
            [\<lparr>kvk_nummer = 1, naam = ''A'', co_url = None, core_id = Some 0, co_ranking = None, co_datetime = None, websites = []\<rparr>,
             \<lparr>kvk_nummer = 2, naam = ''B'', co_url = None, core_id = Some 0, co_ranking = None, co_datetime = None, websites = []\<rparr>,
             \<lparr>kvk_nummer = 3, naam = ''C'', co_url = None, core_id = None, co_ranking = None, co_datetime = None, websites = []\<rparr>])) = []"
proof (intro conjI impI)
  assume m: "0 \<le> m"
  then have "int 0 \<le> m" by simp
  from matching_loop_bound[OF this, of False su sf matcher
      "filter (in_process_range start stop) companies"
      "\<lparr>log = [], iterated = 0, matched = [], stop_file_removed = False\<rparr>"]
  show "iterated (snd (find_best_matching_url start stop (Some m) False su sf matcher companies))
        \<le> nat m"
    by (simp add: find_best_matching_url_def)
next
  assume "0 \<le> m"
  show "length (matched (snd (find_best_matching_url start stop (Some m) False su sf matcher
                                  companies)))
          \<le> iterated (snd (find_best_matching_url start stop (Some m) False su sf matcher
                                companies))"
    using matching_loop_matched_le[of "Some m" False su sf matcher 0
        "filter (in_process_range start stop) companies"
        "\<lparr>log = [], iterated = 0, matched = [], stop_file_removed = False\<rparr>"]
    by (simp add: find_best_matching_url_def)
next
  assume "int cnt \<noteq> m \<and> \<not> sf cnt \<and> core_id c \<noteq> None"
  then show "matching_loop (Some m) False su sf matcher cnt (c # rest) st =
          matching_loop (Some m) False su sf matcher (Suc cnt) rest
            (st\<lparr>log := log st @ [Debug_already_processed (kvk_nummer c) (naam c)],
                iterated := Suc (iterated st)\<rparr>)"
    by auto
next
  show "iterated (snd (find_best_matching_url None None (Some 2) False False (\<lambda>n. False) (\<lambda>c. (None, c))
            [\<lparr>kvk_nummer = 1, naam = ''A'', co_url = None, core_id = Some 0, co_ranking = None, co_datetime = None, websites = []\<rparr>,
             \<lparr>kvk_nummer = 2, naam = ''B'', co_url = None, core_id = Some 0, co_ranking = None, co_datetime = None, websites = []\<rparr>,
             \<lparr>kvk_nummer = 3, naam = ''C'', co_url = None, core_id = None, co_ranking = None, co_datetime = None, websites = []\<rparr>])) = 2"
    by (simp add: find_best_matching_url_def in_process_range_def)
next
  show "matched (snd (find_best_matching_url None None (Some 2) False False (\<lambda>n. False) (\<lambda>c. (None, c))
            [\<lparr>kvk_nummer = 1, naam = ''A'', co_url = None, core_id = Some 0, co_ranking = None, co_datetime = None, websites = []\<rparr>,
             \<lparr>kvk_nummer = 2, naam = ''B'', co_url = None, core_id = Some 0, co_ranking = None, co_datetime = None, websites = []\<rparr>,
             \<lparr>kvk_nummer = 3, naam = ''C'', co_url = None, core_id = None, co_ranking = None, co_datetime = None, websites = []\<rparr>])) = []"
    by (simp add: find_best_matching_url_def in_process_range_def)
qed

text \<open>
  Witness of C10: three unprocessed companies and a cap of two; two rows are iterated and
  two companies are matched.
\<close>

theorem maximum_entries_counts_skipped_rows_witness:
  "iterated (snd (find_best_matching_url None None (Some 2) False False (\<lambda>n. False)
      (\<lambda>c. (None, c))
      [\<lparr>kvk_nummer = 1, naam = ''A'', co_url = None, core_id = None, co_ranking = None, co_datetime = None, websites = []\<rparr>,
       \<lparr>kvk_nummer = 2, naam = ''B'', co_url = None, core_id = None, co_ranking = None, co_datetime = None, websites = []\<rparr>,
       \<lparr>kvk_nummer = 3, naam = ''C'', co_url = None, core_id = None, co_ranking = None, co_datetime = None, websites = []\<rparr>])) \<le> 2"
proof -
  have h: "(0::int) \<le> 2" by simp
  from maximum_entries_counts_skipped_rows[where m = 2 and start = None and stop = None
      and su = False and sf = "\<lambda>n. False" and matcher = "\<lambda>c. (None, c)"
      and companies = "[\<lparr>kvk_nummer = 1, naam = ''A'', co_url = None, core_id = None, co_ranking = None, co_datetime = None, websites = []\<rparr>,
       \<lparr>kvk_nummer = 2, naam = ''B'', co_url = None, core_id = None, co_ranking = None, co_datetime = None, websites = []\<rparr>,
       \<lparr>kvk_nummer = 3, naam = ''C'', co_url = None, core_id = None, co_ranking = None, co_datetime = None, websites = []\<rparr>]"] h
  show ?thesis by simp
qed

section \<open>Properties of the work partitioning\<close>

lemma concat_inner_chunks:
  "concat (map (\<lambda>i. drop (i * n) (take ((i + 1) * n) xs)) [0 ..< k]) = take (k * n) xs"
proof (induction k)
  case 0
  then show ?case by simp
next
  case (Suc k)
  have "take (k * n) xs @ drop (k * n) (take ((k + 1) * n) xs) = take ((k + 1) * n) xs"
    by (metis add.commute append_take_drop_id le_add2 min.absorb1 mult_Suc Suc_eq_plus1 take_take)
  with Suc show ?case by simp
qed

lemma chunks_cover:
  assumes "0 < w"
  shows "concat (map (chunk_of xs w n) [0 ..< w]) = xs"
proof -
  obtain k where w: "w = Suc k" using assms by (cases w) auto
  have inner: "map (chunk_of xs (Suc k) n) [0 ..< k]
                 = map (\<lambda>i. drop (i * n) (take ((i + 1) * n) xs)) [0 ..< k]"
    by (rule map_cong) (auto simp: chunk_of_def py_slice_def)
  have final: "chunk_of xs (Suc k) n k = drop (k * n) xs"
    by (simp add: chunk_of_def py_slice_def)
  have "concat (map (chunk_of xs (Suc k) n) [0 ..< Suc k])
          = concat (map (chunk_of xs (Suc k) n) [0 ..< k]) @ chunk_of xs (Suc k) n k"
    by simp
  also have "\<dots> = take (k * n) xs @ drop (k * n) xs"
    unfolding inner final concat_inner_chunks ..
  finally show ?thesis by (simp add: w)
qed

text \<open>
  Claim C5 (work partitioning) at five qualifying registration numbers and three workers:
  every worker but the last is given \<open>5 div 3 + 5 mod 3 = 3\<close> numbers, so the chunks are
  \<open>[1, 2, 3]\<close>, \<open>[4, 5]\<close> and the empty list; the last worker gets no sub-range, the warning of
  the \<^verbatim>\<open>except IndexError\<close> branch is logged, and only two sub-ranges are recorded.
\<close>

theorem partition_five_over_three:
  "get_kvk_list_per_process None None None False 3
     [(1, None), (2, None), (3, None), (4, None), (5, None)]
   = Inr \<lparr>chunks = [[1, 2, 3], [4, 5], []], kvk_ranges = [(1, 3), (4, 5)], range_warnings = 1\<rparr>"
  by code_simp

section \<open>Properties of the name cleaning\<close>

lemma set_skip_abbrev: "set (skip_abbrev cs) \<subseteq> set cs"
  by (induction cs rule: skip_abbrev.induct) auto

lemma set_sub_abbrev: "set (sub_abbrev cs) \<subseteq> set cs"
proof (induction cs rule: sub_abbrev.induct)
  case 1
  then show ?case by simp
next
  case (2 c cs)
  have "set (dropWhile is_space (skip_abbrev cs)) \<subseteq> set cs"
    using set_dropWhileD set_skip_abbrev by fastforce
  with 2 show ?case by auto
qed

lemma no_lf_last: "CHR 0x0A \<notin> set cs \<Longrightarrow> \<not> (cs \<noteq> [] \<and> last cs = CHR 0x0A)"
  by (metis last_in_set)

lemma set_sub_paren: "set (sub_paren cs) \<subseteq> set cs"
proof (induction cs)
  case Nil
  then show ?case by simp
next
  case (Cons c cs)
  show ?case using Cons no_lf_last[of cs] by auto
qed

lemma sub_abbrev_no_space: "\<forall>c \<in> set cs. \<not> is_space c \<Longrightarrow> sub_abbrev cs = cs"
  by (induction cs) auto

lemma paren_tail_closing: "paren_tail cs \<Longrightarrow> CHR '')'' \<in> set cs"
  by (auto simp: paren_tail_def Let_def split: if_splits dest: in_set_butlastD)

lemma paren_tail_no_lf: "CHR 0x0A \<notin> set cs \<Longrightarrow> paren_tail cs = (CHR '')'' \<in> set cs)"
  using no_lf_last[of cs] by (auto simp add: paren_tail_def Let_def)

lemma sub_paren_no_pair: "\<not> has_paren_pair cs \<Longrightarrow> sub_paren cs = cs"
  by (induction cs) (auto dest: paren_tail_closing)

lemma no_pair_sub_paren: "CHR 0x0A \<notin> set cs \<Longrightarrow> \<not> has_paren_pair (sub_paren cs)"
proof (induction cs)
  case Nil
  then show ?case by simp
next
  case (Cons c cs)
  then have lf: "CHR 0x0A \<notin> set cs" by simp
  show ?case
  proof (cases "c = CHR ''('' \<and> paren_tail cs")
    case True
    moreover have "\<not> (cs \<noteq> [] \<and> last cs = CHR 0x0A)" using lf by (rule no_lf_last)
    ultimately show ?thesis by auto
  next
    case False
    then have "c = CHR ''('' \<Longrightarrow> CHR '')'' \<notin> set (sub_paren cs)"
      using paren_tail_no_lf[OF lf] set_sub_paren[of cs] by auto
    with False Cons.IH[OF lf] show ?thesis by auto
  qed
qed

lemma no_pair_filter: "\<not> has_paren_pair cs \<Longrightarrow> \<not> has_paren_pair (filter P cs)"
  by (induction cs) auto

lemma upper_code:
  assumes "is_upper c"
  shows "(of_char (lower_char c) :: nat) = of_char c + 32"
proof -
  from assms have "(of_char c :: nat) + 32 < 256" by (auto simp: is_upper_def Let_def)
  then have "(of_char (char_of (of_char c + 32 :: nat)) :: nat) = of_char c + 32"
    by (simp add: of_char_of)
  with assms show ?thesis by (simp add: lower_char_def)
qed

lemma lower_not_upper: "\<not> is_upper (lower_char c)"
proof (cases "is_upper c")
  case True
  from upper_code[OF True] True show ?thesis
    unfolding is_upper_def[of "lower_char c"] Let_def
    by (auto simp: is_upper_def Let_def)
next
  case False
  then show ?thesis by (simp add: lower_char_def)
qed

lemma lower_char_idem: "lower_char (lower_char c) = lower_char c"
  using lower_not_upper[of c] by (simp add: lower_char_def[of "lower_char c"])

lemma lower_char_lf: "lower_char c = CHR 0x0A \<longleftrightarrow> c = CHR 0x0A"
proof (cases "is_upper c")
  case True
  have "lower_char c \<noteq> CHR 0x0A"
  proof
    assume "lower_char c = CHR 0x0A"
    then have "(of_char (lower_char c) :: nat) = 10" by simp
    with upper_code[OF True] show False by simp
  qed
  moreover have "c \<noteq> CHR 0x0A" using True by (auto simp: is_upper_def Let_def)
  ultimately show ?thesis by simp
next
  case False
  then show ?thesis by (simp add: lower_char_def)
qed

lemma clean_name_fixed:
  assumes sp: "\<forall>c \<in> set t. \<not> is_space c"
      and am: "\<forall>c \<in> set t. c \<noteq> CHR ''&'' \<and> c \<noteq> CHR 0x22"
      and lo: "\<forall>c \<in> set t. lower_char c = c"
      and pp: "\<not> has_paren_pair t"
  shows "clean_name t = t"
proof -
  have 1: "lower t = t" unfolding lower_def using lo by (simp add: map_idI)
  have 2: "sub_abbrev t = t" using sp by (rule sub_abbrev_no_space)
  have 3: "sub_paren t = t" using pp by (rule sub_paren_no_pair)
  have 4: "filter (\<lambda>c. c \<noteq> CHR ''&'' \<and> c \<noteq> CHR 0x22) t = t" using am by simp
  have 5: "filter (\<lambda>c. \<not> is_space c) t = t" using sp by simp
  show ?thesis unfolding clean_name_def Let_def 1 2 3 4 5 ..
qed

lemma clean_name_idempotent_no_lf:
  assumes "CHR 0x0A \<notin> set s"
  shows "clean_name (clean_name s) = clean_name s"
proof (rule clean_name_fixed)
  let ?u = "sub_abbrev (lower s)"
  have t: "clean_name s =
             filter (\<lambda>c. \<not> is_space c)
               (filter (\<lambda>c. c \<noteq> CHR ''&'' \<and> c \<noteq> CHR 0x22) (sub_paren ?u))"
    by (simp add: clean_name_def Let_def)
  show "\<forall>c \<in> set (clean_name s). \<not> is_space c" by (simp add: t)
  show "\<forall>c \<in> set (clean_name s). c \<noteq> CHR ''&'' \<and> c \<noteq> CHR 0x22" by (simp add: t)
  have sub: "set (clean_name s) \<subseteq> set (lower s)"
    using set_sub_paren[of ?u] set_sub_abbrev[of "lower s"] by (auto simp: t)
  show "\<forall>c \<in> set (clean_name s). lower_char c = c"
  proof
    fix c assume "c \<in> set (clean_name s)"
    with sub have "c \<in> set (lower s)" by blast
    then obtain d where "c = lower_char d" by (auto simp: lower_def)
    then show "lower_char c = c" by (simp add: lower_char_idem)
  qed
  have "CHR 0x0A \<notin> set (lower s)"
  proof
    assume "CHR 0x0A \<in> set (lower s)"
    then obtain d where d: "d \<in> set s" "lower_char d = CHR 0x0A" by (auto simp: lower_def)
    then have "d = CHR 0x0A" by (simp add: lower_char_lf)
    with d assms show False by simp
  qed
  then have "CHR 0x0A \<notin> set ?u" using set_sub_abbrev[of "lower s"] by blast
  then have "\<not> has_paren_pair (sub_paren ?u)" by (rule no_pair_sub_paren)
  then show "\<not> has_paren_pair (clean_name s)" unfolding t by (intro no_pair_filter)
qed

lemma clean_name_acme: "clean_name ''ACME B.V. (Holding) & Co.'' = ''acme''"
  by code_simp

text \<open>
  Claim C9 (name cleaning). The comment of the third substitution of \<^verbatim>\<open>clean_name\<close> says
  that everything between parentheses and what comes after it is removed. For the name made
  of \<open>(a)\<close>, a line feed and \<open>b\<close> the pattern \<^verbatim>\<open>\(.*\).*$\<close> does not match, because the dot
  does not cross the line feed and \<^verbatim>\<open>$\<close> only matches at the end of the string; the line feed
  is then removed with the other white space. The cleaned name is \<open>(a)b\<close>, with its
  parenthesised part, and cleaning this name again returns the empty name: at this name the
  cleaning is not idempotent. On names without a line feed the cleaning is idempotent
  (\<open>clean_name_idempotent_no_lf\<close>), and the example of the specification holds
  (\<open>clean_name_acme\<close>).
\<close>

theorem clean_name_line_feed:
  "clean_name [CHR ''('', CHR ''a'', CHR '')'', CHR 0x0A, CHR ''b''] = ''(a)b''
   \<and> clean_name ''(a)b'' = []
   \<and> clean_name (clean_name [CHR ''('', CHR ''a'', CHR '')'', CHR 0x0A, CHR ''b''])
       \<noteq> clean_name [CHR ''('', CHR ''a'', CHR '')'', CHR 0x0A, CHR ''b'']"
  by code_simp

section \<open>Properties of the removal of spurious URLs\<close>

lemma set_not_duplicated: "set (not_duplicated seen key xs) \<subseteq> set xs"
  by (induction xs arbitrary: seen) auto

lemma keys_not_duplicated:
  "key ` set (not_duplicated seen key xs) = key ` set xs - set seen"
  by (induction xs arbitrary: seen) auto

lemma distinct_not_duplicated: "distinct (map key (not_duplicated seen key xs))"
proof (induction xs arbitrary: seen)
  case Nil
  then show ?case by simp
next
  case (Cons x xs)
  have "key x \<notin> key ` set (not_duplicated (key x # seen) key xs)"
    by (simp add: keys_not_duplicated)
  with Cons show ?case by auto
qed

lemma distinct_map_coarser:
  assumes "distinct (map f xs)" and "\<And>x y. g x = g y \<Longrightarrow> f x = f y"
  shows "distinct (map g xs)"
proof -
  from assms(1) have d: "distinct xs" and i: "inj_on f (set xs)"
    by (simp_all add: distinct_map)
  have "inj_on g (set xs)"
    by (rule inj_onI) (metis assms(2) i inj_onD)
  with d show ?thesis by (simp add: distinct_map)
qed

lemma index_key_eq: "(ur_kvk x, ur_url x) = (ur_kvk y, ur_url y) \<Longrightarrow> index_key x = index_key y"
  by (simp add: index_key_def)

lemma index_key_url: "index_key x = index_key y \<Longrightarrow> ur_kvk x = ur_kvk y \<and> ur_url x = ur_url y"
  by (auto simp: index_key_def split: option.splits)

lemma set_drop_frequent:
  "set (drop_frequent thr df) =
     {r \<in> set df. \<exists>u. ur_url r = Some u \<and> int (occurrences u df) < thr}"
  by (auto simp: drop_frequent_def n_count_def split: option.splits)

lemma set_remove_spurious_urls:
  "set (remove_spurious_urls thr df) \<subseteq> set (drop_frequent thr df)"
  using set_not_duplicated[of "[]" index_key "sort_key index_key (drop_frequent thr df)"]
  by (simp add: remove_spurious_urls_def Let_def)

lemma keys_remove_spurious_urls:
  "index_key ` set (remove_spurious_urls thr df) = index_key ` set (drop_frequent thr df)"
  by (simp add: remove_spurious_urls_def Let_def keys_not_duplicated)

text \<open>
  Claim C7 (removal of spurious URLs). Every row whose URL occurs in the table at least as
  often as the threshold is removed: it does not pass the occurrence filter and no row with
  that URL is left in the result. Every row whose URL occurs less often than the threshold
  is kept by the occurrence filter, and its pair of registration number and URL is still
  present in the result. Afterwards the result holds at most one row for every pair of
  registration number and URL.
\<close>

theorem spurious_urls_removed:
  "(\<forall>r \<in> set df. \<forall>u. ur_url r = Some u \<longrightarrow>
      (thr \<le> int (occurrences u df) \<longrightarrow>
         r \<notin> set (drop_frequent thr df)
         \<and> (\<forall>x \<in> set (remove_spurious_urls thr df). ur_url x \<noteq> Some u))
      \<and> (int (occurrences u df) < thr \<longrightarrow>
         r \<in> set (drop_frequent thr df)
         \<and> (\<exists>x \<in> set (remove_spurious_urls thr df). ur_kvk x = ur_kvk r \<and> ur_url x = Some u)))
   \<and> set (remove_spurious_urls thr df) \<subseteq> set df
   \<and> distinct (map (\<lambda>x. (ur_kvk x, ur_url x)) (remove_spurious_urls thr df))"
proof (intro conjI ballI allI impI)
  fix r u
  assume r: "r \<in> set df" and u: "ur_url r = Some u" and ge: "thr \<le> int (occurrences u df)"
  show "r \<notin> set (drop_frequent thr df)"
    using u ge by (auto simp: set_drop_frequent)
  fix x assume "x \<in> set (remove_spurious_urls thr df)"
  then have "x \<in> set (drop_frequent thr df)" using set_remove_spurious_urls by blast
  then show "ur_url x \<noteq> Some u" using ge by (auto simp: set_drop_frequent)
next
  fix r u
  assume r: "r \<in> set df" and u: "ur_url r = Some u" and lt: "int (occurrences u df) < thr"
  then show in_f: "r \<in> set (drop_frequent thr df)" by (auto simp: set_drop_frequent)
  then have "index_key r \<in> index_key ` set (remove_spurious_urls thr df)"
    by (simp add: keys_remove_spurious_urls)
  then obtain x where x: "x \<in> set (remove_spurious_urls thr df)" "index_key x = index_key r"
    by auto
  from index_key_url[OF x(2)] u x(1)
  show "\<exists>x \<in> set (remove_spurious_urls thr df). ur_kvk x = ur_kvk r \<and> ur_url x = Some u"
    by auto
next
  show "set (remove_spurious_urls thr df) \<subseteq> set df"
    using set_remove_spurious_urls[of thr df] by (auto simp: set_drop_frequent)
next
  have "distinct (map index_key (remove_spurious_urls thr df))"
    by (simp add: remove_spurious_urls_def Let_def distinct_not_duplicated)
  then show "distinct (map (\<lambda>x. (ur_kvk x, ur_url x)) (remove_spurious_urls thr df))"
    by (rule distinct_map_coarser) (rule index_key_eq)
qed

text \<open>
  Witness of C7: with threshold 3, the URL \<open>a.nl\<close> occurs three times and all its rows are
  removed; the URL \<open>b.nl\<close> occurs twice for the same company and one row of it is kept.
\<close>

theorem spurious_urls_removed_witness:
  "Some ''a.nl'' \<notin> set (map ur_url (remove_spurious_urls 3
     [\<lparr>ur_kvk = 1, ur_naam = Some ''A'', ur_url = Some ''a.nl''\<rparr>,
      \<lparr>ur_kvk = 2, ur_naam = Some ''B'', ur_url = Some ''a.nl''\<rparr>,
      \<lparr>ur_kvk = 3, ur_naam = Some ''C'', ur_url = Some ''a.nl''\<rparr>,
      \<lparr>ur_kvk = 4, ur_naam = Some ''D'', ur_url = Some ''b.nl''\<rparr>,
      \<lparr>ur_kvk = 4, ur_naam = Some ''D2'', ur_url = Some ''b.nl''\<rparr>]))
   \<and> (4, Some ''b.nl'') \<in> set (map (\<lambda>x. (ur_kvk x, ur_url x)) (remove_spurious_urls 3
     [\<lparr>ur_kvk = 1, ur_naam = Some ''A'', ur_url = Some ''a.nl''\<rparr>,
      \<lparr>ur_kvk = 2, ur_naam = Some ''B'', ur_url = Some ''a.nl''\<rparr>,
      \<lparr>ur_kvk = 3, ur_naam = Some ''C'', ur_url = Some ''a.nl''\<rparr>,
      \<lparr>ur_kvk = 4, ur_naam = Some ''D'', ur_url = Some ''b.nl''\<rparr>,
      \<lparr>ur_kvk = 4, ur_naam = Some ''D2'', ur_url = Some ''b.nl''\<rparr>]))
   \<and> remove_spurious_urls 3
     [\<lparr>ur_kvk = 1, ur_naam = Some ''A'', ur_url = Some ''a.nl''\<rparr>,
      \<lparr>ur_kvk = 2, ur_naam = Some ''B'', ur_url = Some ''a.nl''\<rparr>,
      \<lparr>ur_kvk = 3, ur_naam = Some ''C'', ur_url = Some ''a.nl''\<rparr>,
      \<lparr>ur_kvk = 4, ur_naam = Some ''D'', ur_url = Some ''b.nl''\<rparr>,
      \<lparr>ur_kvk = 4, ur_naam = Some ''D2'', ur_url = Some ''b.nl''\<rparr>]
     = [\<lparr>ur_kvk = 4, ur_naam = Some ''D'', ur_url = Some ''b.nl''\<rparr>]"
proof -
  let ?df = "[\<lparr>ur_kvk = 1, ur_naam = Some ''A'', ur_url = Some ''a.nl''\<rparr>,
      \<lparr>ur_kvk = 2, ur_naam = Some ''B'', ur_url = Some ''a.nl''\<rparr>,
      \<lparr>ur_kvk = 3, ur_naam = Some ''C'', ur_url = Some ''a.nl''\<rparr>,
      \<lparr>ur_kvk = 4, ur_naam = Some ''D'', ur_url = Some ''b.nl''\<rparr>,
      \<lparr>ur_kvk = 4, ur_naam = Some ''D2'', ur_url = Some ''b.nl''\<rparr>]"
  let ?a = "\<lparr>ur_kvk = 1, ur_naam = Some ''A'', ur_url = Some ''a.nl''\<rparr>"
  let ?b = "\<lparr>ur_kvk = 4, ur_naam = Some ''D'', ur_url = Some ''b.nl''\<rparr>"
  note inst = spurious_urls_removed[of ?df 3]
  have a1: "?a \<in> set ?df" and a2: "ur_url ?a = Some ''a.nl''"
    and a3: "(3::int) \<le> int (occurrences ''a.nl'' ?df)"
    by (simp_all add: occurrences_def)
  have b1: "?b \<in> set ?df" and b2: "ur_url ?b = Some ''b.nl''"
    and b3: "int (occurrences ''b.nl'' ?df) < 3"
    by (simp_all add: occurrences_def)
  from inst a1 a2 a3
  have A: "\<forall>x \<in> set (remove_spurious_urls 3 ?df). ur_url x \<noteq> Some ''a.nl''"
    by blast
  from inst b1 b2 b3
  have "\<exists>x \<in> set (remove_spurious_urls 3 ?df). ur_kvk x = ur_kvk ?b \<and> ur_url x = Some ''b.nl''"
    by blast
  then have B: "\<exists>x \<in> set (remove_spurious_urls 3 ?df). ur_kvk x = 4 \<and> ur_url x = Some ''b.nl''"
    by simp
  have C: "remove_spurious_urls 3 ?df = [?b]"
    by code_simp
  from A have A': "Some ''a.nl'' \<notin> set (map ur_url (remove_spurious_urls 3 ?df))"
    by auto
  from B have B': "(4, Some ''b.nl'') \<in> set (map (\<lambda>x. (ur_kvk x, ur_url x))
                                            (remove_spurious_urls 3 ?df))"
    by force
  from A' B' C show ?thesis by blast
qed

section \<open>Properties of the shortlist reduction\<close>



























end
